theory Spec2Isabelle
  imports Complex_Main "HOL-Library.AList" "HOL-Library.Char_ord" "HOL-Library.List_Lexorder"
begin

section \<open>The FluxLED/MagicHome light entity (light.py)\<close>

text \<open>
  The module translates a bag of optional attributes (the keyword arguments of the
  turn-on call) into commands on a device object, and derives the reported state from
  the device's cached values. The device, the colour utilities of the \<open>flux_led\<close>
  library and the colour helpers of the host framework are collaborators: their
  attributes are read from a record, their functions are parameters of the model, and
  the commands sent to the device are collected in the order they are awaited.
\<close>

subsection \<open>Colour modes\<close>

text \<open>
  The native colour modes are the five constants imported from \<open>flux_led.const\<close>; a
  device may report any other value, which \<open>FLUX_COLOR_MODE_OTHER\<close> stands for.
\<close>

datatype flux_color_mode =
    FLUX_COLOR_MODE_RGB
  | FLUX_COLOR_MODE_RGBW
  | FLUX_COLOR_MODE_RGBWW
  | FLUX_COLOR_MODE_CCT
  | FLUX_COLOR_MODE_DIM
  | FLUX_COLOR_MODE_OTHER string

datatype hass_color_mode =
    COLOR_MODE_ONOFF
  | COLOR_MODE_BRIGHTNESS
  | COLOR_MODE_COLOR_TEMP
  | COLOR_MODE_RGB
  | COLOR_MODE_RGBW
  | COLOR_MODE_RGBWW

text \<open>
  A Python dict literal or comprehension stores its items one after the other; a key
  stored twice keeps its first position and its last value. \<open>dict_of\<close> builds the
  association list that way, \<open>map_of\<close> is the lookup.
\<close>

definition dict_of :: "('k \<times> 'v) list \<Rightarrow> ('k \<times> 'v) list" where
  "dict_of items = foldl (\<lambda>d (k, v). AList.update k v d) [] items"

definition FLUX_COLOR_MODE_TO_HASS :: "(flux_color_mode \<times> hass_color_mode) list" where
  "FLUX_COLOR_MODE_TO_HASS = dict_of
     [(FLUX_COLOR_MODE_RGB, COLOR_MODE_RGB),
      (FLUX_COLOR_MODE_RGBW, COLOR_MODE_RGBW),
      (FLUX_COLOR_MODE_RGBWW, COLOR_MODE_RGBWW),
      (FLUX_COLOR_MODE_CCT, COLOR_MODE_COLOR_TEMP),
      (FLUX_COLOR_MODE_DIM, COLOR_MODE_BRIGHTNESS)]"

definition EFFECT_SUPPORT_MODES :: "hass_color_mode set" where
  "EFFECT_SUPPORT_MODES = {COLOR_MODE_RGB, COLOR_MODE_RGBW, COLOR_MODE_RGBWW}"

subsection \<open>Effect names and the preset table\<close>

text \<open>
  \<open>EFFECT_COLORLOOP\<close> and \<open>EFFECT_RANDOM\<close> are imported from the host framework's
  light component, where they are the strings below; the other names are declared in
  the module.
\<close>

definition EFFECT_COLORLOOP :: string where "EFFECT_COLORLOOP = ''colorloop''"
definition EFFECT_RANDOM :: string where "EFFECT_RANDOM = ''random''"
definition EFFECT_RED_FADE :: string where "EFFECT_RED_FADE = ''red_fade''"
definition EFFECT_GREEN_FADE :: string where "EFFECT_GREEN_FADE = ''green_fade''"
definition EFFECT_BLUE_FADE :: string where "EFFECT_BLUE_FADE = ''blue_fade''"
definition EFFECT_YELLOW_FADE :: string where "EFFECT_YELLOW_FADE = ''yellow_fade''"
definition EFFECT_CYAN_FADE :: string where "EFFECT_CYAN_FADE = ''cyan_fade''"
definition EFFECT_PURPLE_FADE :: string where "EFFECT_PURPLE_FADE = ''purple_fade''"
definition EFFECT_WHITE_FADE :: string where "EFFECT_WHITE_FADE = ''white_fade''"
definition EFFECT_RED_GREEN_CROSS_FADE :: string where
  "EFFECT_RED_GREEN_CROSS_FADE = ''rg_cross_fade''"
definition EFFECT_RED_BLUE_CROSS_FADE :: string where
  "EFFECT_RED_BLUE_CROSS_FADE = ''rb_cross_fade''"
definition EFFECT_GREEN_BLUE_CROSS_FADE :: string where
  "EFFECT_GREEN_BLUE_CROSS_FADE = ''gb_cross_fade''"
definition EFFECT_COLORSTROBE :: string where "EFFECT_COLORSTROBE = ''colorstrobe''"
definition EFFECT_RED_STROBE :: string where "EFFECT_RED_STROBE = ''red_strobe''"
definition EFFECT_GREEN_STROBE :: string where "EFFECT_GREEN_STROBE = ''green_strobe''"
definition EFFECT_BLUE_STROBE :: string where "EFFECT_BLUE_STROBE = ''blue_strobe''"
definition EFFECT_YELLOW_STROBE :: string where "EFFECT_YELLOW_STROBE = ''yellow_strobe''"
definition EFFECT_CYAN_STROBE :: string where "EFFECT_CYAN_STROBE = ''cyan_strobe''"
definition EFFECT_PURPLE_STROBE :: string where "EFFECT_PURPLE_STROBE = ''purple_strobe''"
definition EFFECT_WHITE_STROBE :: string where "EFFECT_WHITE_STROBE = ''white_strobe''"
definition EFFECT_COLORJUMP :: string where "EFFECT_COLORJUMP = ''colorjump''"
definition EFFECT_CUSTOM :: string where "EFFECT_CUSTOM = ''custom''"

definition EFFECT_MAP_items :: "(string \<times> int) list" where
  "EFFECT_MAP_items =
     [(EFFECT_COLORLOOP, 0x25),
      (EFFECT_RED_FADE, 0x26),
      (EFFECT_GREEN_FADE, 0x27),
      (EFFECT_BLUE_FADE, 0x28),
      (EFFECT_YELLOW_FADE, 0x29),
      (EFFECT_CYAN_FADE, 0x2A),
      (EFFECT_PURPLE_FADE, 0x2B),
      (EFFECT_WHITE_FADE, 0x2C),
      (EFFECT_RED_GREEN_CROSS_FADE, 0x2D),
      (EFFECT_RED_BLUE_CROSS_FADE, 0x2E),
      (EFFECT_GREEN_BLUE_CROSS_FADE, 0x2F),
      (EFFECT_COLORSTROBE, 0x30),
      (EFFECT_RED_STROBE, 0x31),
      (EFFECT_GREEN_STROBE, 0x32),
      (EFFECT_BLUE_STROBE, 0x33),
      (EFFECT_YELLOW_STROBE, 0x34),
      (EFFECT_CYAN_STROBE, 0x35),
      (EFFECT_PURPLE_STROBE, 0x36),
      (EFFECT_WHITE_STROBE, 0x37),
      (EFFECT_COLORJUMP, 0x38)]"

definition EFFECT_MAP :: "(string \<times> int) list" where
  "EFFECT_MAP = dict_of EFFECT_MAP_items"

text \<open>\<open>{v: k for k, v in EFFECT_MAP.items()}\<close>\<close>

definition EFFECT_ID_NAME :: "(int \<times> string) list" where
  "EFFECT_ID_NAME = dict_of (map (\<lambda>(k, v). (v, k)) EFFECT_MAP)"

definition EFFECT_CUSTOM_CODE :: int where
  "EFFECT_CUSTOM_CODE = 0x60"

text \<open>\<open>sorted(EFFECT_MAP) + [EFFECT_RANDOM]\<close>: the keys in string order, then RANDOM.\<close>

definition FLUX_EFFECT_LIST :: "string list" where
  "FLUX_EFFECT_LIST = sort (map fst EFFECT_MAP) @ [EFFECT_RANDOM]"

subsection \<open>Collaborators\<close>

text \<open>
  The functions the module imports from \<open>flux_led.utils\<close> and from the host's colour
  utilities, and the constant \<open>DEFAULT_EFFECT_SPEED\<close> of the package's \<open>const\<close>
  module, are not part of light.py: they are the fields of a record the model is
  parameterised by. The hue/saturation pair is of a type \<open>'hs\<close> of its own, since the
  module only passes it from \<open>color_RGB_to_hs\<close> to \<open>color_hs_to_RGB\<close>.
  \<open>color_temp_to_white_levels\<close> raises for a temperature or a brightness outside its
  range, and the module does not catch that: its result is a sum, \<open>Inl\<close> for the
  exception. The other functions return for every value the host's schema lets
  through, and the model takes them as total.
\<close>

type_synonym rgb = "int \<times> int \<times> int"
type_synonym rgbw = "int \<times> int \<times> int \<times> int"
type_synonym rgbww = "int \<times> int \<times> int \<times> int \<times> int"

text \<open>
  The exceptions a call can end with: the two \<open>ValueError\<close>s the module raises,
  each with the value its message formats ("Unknown effect ..." and "Unsupported
  color mode ..."), and the \<open>ValueError\<close> of \<open>color_temp_to_white_levels\<close>, with the
  temperature and the brightness it was called with.
\<close>

datatype error =
    ValueError_Unknown_effect string
  | ValueError_Unsupported_color_mode hass_color_mode
  | ValueError_color_temp_to_white_levels int int

record 'hs library =
  color_temp_to_white_levels :: "int \<Rightarrow> int \<Rightarrow> error + int \<times> int"
  rgbcw_brightness :: "rgbww \<Rightarrow> int \<Rightarrow> rgbww"
  rgbcw_to_rgbwc :: "rgbww \<Rightarrow> rgbww"
  rgbw_brightness :: "rgbw \<Rightarrow> int \<Rightarrow> rgbw"
  rgbww_brightness :: "rgbww \<Rightarrow> int \<Rightarrow> rgbww"
  color_hs_to_RGB :: "'hs \<Rightarrow> rgb"
  color_RGB_to_hs :: "rgb \<Rightarrow> 'hs"
  color_temperature_kelvin_to_mired :: "int \<Rightarrow> int"
  color_temperature_mired_to_kelvin :: "int \<Rightarrow> int"
  DEFAULT_EFFECT_SPEED :: int

text \<open>
  What the properties of \<open>self._device\<close> return during one call: \<open>is_on\<close> as read on
  entry, the others as read by the dispatch. \<open>getWhiteTemperature\<close> is the pair the
  method of that name returns; the module uses its second component.
\<close>

record device =
  is_on :: bool
  device_color_mode :: flux_color_mode
  device_color_modes :: "flux_color_mode set"
  device_rgb :: rgb
  device_rgbw :: rgbw
  device_rgbcw :: rgbww
  device_rgbww :: rgbww
  device_brightness :: int
  device_color_temp :: int
  min_temp :: int
  max_temp :: int
  preset_pattern_num :: int
  getWhiteTemperature :: "int \<times> int"

text \<open>
  The commands awaited on the device. \<open>async_set_levels\<close> carries the arguments
  \<open>r\<close>, \<open>g\<close>, \<open>b\<close>, \<open>w\<close>, \<open>w2\<close> and \<open>brightness\<close> in this order, \<open>None\<close> for an
  argument the call leaves out.
\<close>

datatype command =
    async_turn_on
  | async_set_white_temp int int
  | async_set_levels "int option" "int option" "int option" "int option" "int option"
      "int option"
  | async_set_preset_pattern int int
  | async_set_custom_pattern "rgb list" int string

text \<open>
  The keyword arguments of the turn-on call. A field is \<open>None\<close> when the key is
  absent and holds the key's value otherwise. \<open>other_keys\<close> are the keys the caller
  passes that the module never reads (the host passes \<open>transition\<close>); they only
  decide whether the dict is empty. The host validates the call's data against the
  light service's schema, so a key that is present holds a value of its type.
\<close>

record kwargs =
  ATTR_BRIGHTNESS :: "int option"
  ATTR_COLOR_TEMP :: "int option"
  ATTR_RGB_COLOR :: "rgb option"
  ATTR_RGBW_COLOR :: "rgbw option"
  ATTR_RGBWW_COLOR :: "rgbww option"
  ATTR_EFFECT :: "string option"
  other_keys :: "string list"

text \<open>\<open>not kwargs\<close>: the dict has no key.\<close>

definition not_kwargs :: "kwargs \<Rightarrow> bool" where
  "not_kwargs kw \<longleftrightarrow>
     ATTR_BRIGHTNESS kw = None \<and> ATTR_COLOR_TEMP kw = None \<and> ATTR_RGB_COLOR kw = None \<and>
     ATTR_RGBW_COLOR kw = None \<and> ATTR_RGBWW_COLOR kw = None \<and> ATTR_EFFECT kw = None \<and>
     other_keys kw = []"

subsection \<open>The entity\<close>

datatype feature = SUPPORT_TRANSITION | SUPPORT_EFFECT

text \<open>
  The attributes \<open>__init__\<close> assigns. The feature bit mask is kept as the set of its
  flags. \<open>attr_effect_list\<close> is \<open>None\<close> while \<open>__init__\<close> has not assigned it, which is
  the base class's default.
\<close>

record FluxLight =
  attr_supported_features :: "feature set"
  attr_min_mireds :: int
  attr_max_mireds :: int
  attr_supported_color_modes :: "hass_color_mode set"
  attr_effect_list :: "string list option"
  custom_effect_colors :: "rgb list"
  custom_effect_speed_pct :: int
  custom_effect_transition :: string

definition SUPPORT_FLUX_LED :: "feature set" where
  "SUPPORT_FLUX_LED = {SUPPORT_TRANSITION}"

text \<open>\<open>FLUX_COLOR_MODE_TO_HASS.get(mode, COLOR_MODE_ONOFF)\<close>\<close>

definition to_hass :: "flux_color_mode \<Rightarrow> hass_color_mode" where
  "to_hass mode =
     (case map_of FLUX_COLOR_MODE_TO_HASS mode of
        None \<Rightarrow> COLOR_MODE_ONOFF
      | Some m \<Rightarrow> m)"

definition FluxLight_init ::
  "'hs library \<Rightarrow> device \<Rightarrow> rgb list \<Rightarrow> int \<Rightarrow> string \<Rightarrow> FluxLight" where
  "FluxLight_init L d colors speed_pct transition =
     (let supported_color_modes = to_hass ` device_color_modes d;
          offers_effects = (supported_color_modes \<inter> EFFECT_SUPPORT_MODES \<noteq> {})
      in \<lparr>attr_supported_features =
            (if offers_effects then insert SUPPORT_EFFECT SUPPORT_FLUX_LED
             else SUPPORT_FLUX_LED),
          attr_min_mireds = color_temperature_kelvin_to_mired L (max_temp d) + 1,
          attr_max_mireds = color_temperature_kelvin_to_mired L (min_temp d),
          attr_supported_color_modes = supported_color_modes,
          attr_effect_list =
            (if offers_effects
             then (if colors \<noteq> [] then Some (FLUX_EFFECT_LIST @ [EFFECT_CUSTOM])
                   else Some FLUX_EFFECT_LIST)
             else None),
          custom_effect_colors = colors,
          custom_effect_speed_pct = speed_pct,
          custom_effect_transition = transition\<rparr>)"

text \<open>The read-only properties.\<close>

definition brightness :: "device \<Rightarrow> int" where
  "brightness d = device_brightness d"

definition color_temp :: "'hs library \<Rightarrow> device \<Rightarrow> int" where
  "color_temp L d = color_temperature_kelvin_to_mired L (device_color_temp d)"

definition rgb_color :: "'hs library \<Rightarrow> device \<Rightarrow> rgb" where
  "rgb_color L d = color_hs_to_RGB L (color_RGB_to_hs L (device_rgb d))"

definition rgbw_color :: "device \<Rightarrow> rgbw" where
  "rgbw_color d = device_rgbw d"

definition rgbww_color :: "device \<Rightarrow> rgbww" where
  "rgbww_color d = device_rgbcw d"

definition rgbwc_color :: "device \<Rightarrow> rgbww" where
  "rgbwc_color d = device_rgbww d"

definition color_mode :: "device \<Rightarrow> hass_color_mode" where
  "color_mode d = to_hass (device_color_mode d)"

definition effect :: "device \<Rightarrow> string option" where
  "effect d =
     (if preset_pattern_num d = EFFECT_CUSTOM_CODE then Some EFFECT_CUSTOM
      else map_of EFFECT_ID_NAME (preset_pattern_num d))"

subsection \<open>Turning on\<close>

text \<open>
  The result of a call is the list of commands awaited on the device, in order, and
  how the call ends: \<open>Inr ()\<close> when it returns, \<open>Inl e\<close> when it raises \<open>e\<close>.
  \<open>rnd\<close> holds the results of the three \<open>random.randint(0, 255)\<close> calls of the
  RANDOM effect, in the order they are made.

  \<open>turn_on_dispatch\<close> is the body of \<open>_async_turn_on\<close> after the check of \<open>is_on\<close>,
  from the default of the brightness to the final \<open>raise\<close>.
\<close>

text \<open>
  The brightness of the call, lines 368-369: \<open>kwargs.get(ATTR_BRIGHTNESS)\<close>, and
  \<open>self.brightness\<close> when that is \<open>None\<close>.
\<close>

definition requested_brightness :: "kwargs \<Rightarrow> device \<Rightarrow> int" where
  "requested_brightness kw d =
     (case ATTR_BRIGHTNESS kw of None \<Rightarrow> brightness d | Some v \<Rightarrow> v)"

text \<open>
  The brightness of the colour-temperature branch in RGBWW mode, lines 382-384:
  \<open>kwargs.get(ATTR_BRIGHTNESS, self._device.getWhiteTemperature()[1])\<close>.
\<close>

definition requested_white_brightness :: "kwargs \<Rightarrow> device \<Rightarrow> int" where
  "requested_white_brightness kw d =
     (case ATTR_BRIGHTNESS kw of None \<Rightarrow> snd (getWhiteTemperature d) | Some v \<Rightarrow> v)"

definition turn_on_dispatch ::
  "'hs library \<Rightarrow> FluxLight \<Rightarrow> device \<Rightarrow> rgb \<Rightarrow> kwargs \<Rightarrow> command list \<times> (error + unit)"
where
  "turn_on_dispatch L self d rnd kw =
    (let brightness0 = requested_brightness kw d in
     case ATTR_COLOR_TEMP kw of
       Some color_temp_mired \<Rightarrow>
         (let color_temp_kelvin = color_temperature_mired_to_kelvin L color_temp_mired in
          if color_mode d \<noteq> COLOR_MODE_RGBWW
          then ([async_set_white_temp color_temp_kelvin brightness0], Inr ())
          else
            (let brightness1 = requested_white_brightness kw d in
             case color_temp_to_white_levels L color_temp_kelvin brightness1 of
               Inl e \<Rightarrow> ([], Inl e)
             | Inr (cold, warm) \<Rightarrow>
                 ([async_set_levels (Some 0) (Some 0) (Some 0) (Some warm) (Some cold) None],
                  Inr ())))
     | None \<Rightarrow>
    (case ATTR_RGB_COLOR kw of
       Some (r, g, b) \<Rightarrow>
         ([async_set_levels (Some r) (Some g) (Some b) None None (Some brightness0)], Inr ())
     | None \<Rightarrow>
    (case ATTR_RGBW_COLOR kw of
       Some rgbw_arg \<Rightarrow>
         (let (r, g, b, w) =
                (if ATTR_BRIGHTNESS kw \<noteq> None then rgbw_brightness L rgbw_arg brightness0
                 else rgbw_arg)
          in ([async_set_levels (Some r) (Some g) (Some b) (Some w) None None], Inr ()))
     | None \<Rightarrow>
    (case ATTR_RGBWW_COLOR kw of
       Some rgbww_arg \<Rightarrow>
         (let rgbcw =
                (if ATTR_BRIGHTNESS kw \<noteq> None then rgbcw_brightness L rgbww_arg brightness0
                 else rgbww_arg);
              (r, g, b, w, w2) = rgbcw_to_rgbwc L rgbcw
          in ([async_set_levels (Some r) (Some g) (Some b) (Some w) (Some w2) None], Inr ()))
     | None \<Rightarrow>
    (case ATTR_EFFECT kw of
       Some eff \<Rightarrow>
         if eff = EFFECT_RANDOM
         then (let (r0, g0, b0) = rnd
               in ([async_set_levels (Some r0) (Some g0) (Some b0) None None None], Inr ()))
         else if eff = EFFECT_CUSTOM
         then (if custom_effect_colors self \<noteq> []
               then ([async_set_custom_pattern (custom_effect_colors self)
                        (custom_effect_speed_pct self) (custom_effect_transition self)],
                     Inr ())
               else ([], Inr ()))
         else (case map_of EFFECT_MAP eff of
                 Some code \<Rightarrow>
                   ([async_set_preset_pattern code (DEFAULT_EFFECT_SPEED L)], Inr ())
               | None \<Rightarrow> ([], Inl (ValueError_Unknown_effect eff)))
     | None \<Rightarrow>
         if color_mode d = COLOR_MODE_COLOR_TEMP
         then ([async_set_white_temp (device_color_temp d) brightness0], Inr ())
         else if color_mode d = COLOR_MODE_RGB
         then (let (r, g, b) = rgb_color L d
               in ([async_set_levels (Some r) (Some g) (Some b) None None (Some brightness0)],
                   Inr ()))
         else if color_mode d = COLOR_MODE_RGBW
         then (let (r, g, b, w) = rgbw_brightness L (rgbw_color d) brightness0
               in ([async_set_levels (Some r) (Some g) (Some b) (Some w) None None], Inr ()))
         else if color_mode d = COLOR_MODE_RGBWW
         then (let (r, g, b, w, w2) = rgbww_brightness L (rgbwc_color d) brightness0
               in ([async_set_levels (Some r) (Some g) (Some b) (Some w) (Some w2) None],
                   Inr ()))
         else if color_mode d = COLOR_MODE_BRIGHTNESS
         then ([async_set_levels None None None (Some brightness0) None None], Inr ())
         else ([], Inl (ValueError_Unsupported_color_mode (color_mode d))))))))"

text \<open>\<open>FluxLight._async_turn_on\<close>\<close>

definition FluxLight_async_turn_on ::
  "'hs library \<Rightarrow> FluxLight \<Rightarrow> device \<Rightarrow> rgb \<Rightarrow> kwargs \<Rightarrow> command list \<times> (error + unit)"
where
  "FluxLight_async_turn_on L self d rnd kw =
    (if \<not> is_on d
     then (if not_kwargs kw then ([async_turn_on], Inr ())
           else (let (cmds, res) = turn_on_dispatch L self d rnd kw
                 in (async_turn_on # cmds, res)))
     else turn_on_dispatch L self d rnd kw)"

text \<open>\<open>FluxLight.async_set_custom_effect\<close>\<close>

definition async_set_custom_effect ::
  "rgb list \<Rightarrow> int \<Rightarrow> string \<Rightarrow> command list \<times> (error + unit)" where
  "async_set_custom_effect colors speed_pct transition =
     ([async_set_custom_pattern colors speed_pct transition], Inr ())"

subsection \<open>The life of an entity\<close>

text \<open>
  After \<open>__init__\<close> the entity is used through its two methods. Neither assigns an
  attribute of \<open>self\<close>, so a call hands the entity on as it received it, next to the
  commands it issued.
\<close>

datatype call =
    Call_turn_on device rgb kwargs
  | Call_set_custom_effect "rgb list" int string

fun perform ::
  "'hs library \<Rightarrow> FluxLight \<Rightarrow> call \<Rightarrow> FluxLight \<times> (command list \<times> (error + unit))" where
  "perform L self (Call_turn_on d rnd kw) = (self, FluxLight_async_turn_on L self d rnd kw)"
| "perform L self (Call_set_custom_effect colors speed_pct transition) =
     (self, async_set_custom_effect colors speed_pct transition)"

fun run :: "'hs library \<Rightarrow> FluxLight \<Rightarrow> call list \<Rightarrow> FluxLight" where
  "run L self [] = self"
| "run L self (c # cs) = run L (fst (perform L self c)) cs"

text \<open>The effect list the entity advertises holds a name.\<close>

definition advertises :: "FluxLight \<Rightarrow> string \<Rightarrow> bool" where
  "advertises self name =
     (case attr_effect_list self of None \<Rightarrow> False | Some names \<Rightarrow> name \<in> set names)"

subsection \<open>An example set of collaborators\<close>

text \<open>
  To run the model on concrete inputs, the library functions are given integer
  stand-ins: the two temperature conversions divide one million, the white levels
  cross-fade linearly between 2700 K and 6500 K and raise outside that range or for a
  brightness outside 0 to 255, as the library does, the brightness helpers scale every
  channel by \<open>brightness / 255\<close>, and hue/saturation is the triple scaled to a maximum
  of 255. The theorems below hold for every library; the stand-ins serve the examples.
\<close>

definition example_scale :: "int \<Rightarrow> int \<Rightarrow> int" where
  "example_scale v b = v * b div 255"

definition example_library :: "rgb library" where
  "example_library =
     \<lparr>color_temp_to_white_levels =
        (\<lambda>kelvin b.
           if \<not> (2700 \<le> kelvin \<and> kelvin \<le> 6500) \<or> \<not> (0 \<le> b \<and> b \<le> 255)
           then Inl (ValueError_color_temp_to_white_levels kelvin b)
           else (let warm = b * (6500 - kelvin) div 3800 in Inr (b - warm, warm))),
      rgbcw_brightness =
        (\<lambda>(r, g, b, c, w) v. (example_scale r v, example_scale g v, example_scale b v,
           example_scale c v, example_scale w v)),
      rgbcw_to_rgbwc = (\<lambda>(r, g, b, c, w). (r, g, b, w, c)),
      rgbw_brightness =
        (\<lambda>(r, g, b, w) v. (example_scale r v, example_scale g v, example_scale b v,
           example_scale w v)),
      rgbww_brightness =
        (\<lambda>(r, g, b, w, c) v. (example_scale r v, example_scale g v, example_scale b v,
           example_scale w v, example_scale c v)),
      color_hs_to_RGB = (\<lambda>hs. hs),
      color_RGB_to_hs =
        (\<lambda>(r, g, b). let m = max r (max g b)
           in if m = 0 then (255, 255, 255) else (r * 255 div m, g * 255 div m, b * 255 div m)),
      color_temperature_kelvin_to_mired = (\<lambda>kelvin. 1000000 div kelvin),
      color_temperature_mired_to_kelvin = (\<lambda>mired. 1000000 div mired),
      DEFAULT_EFFECT_SPEED = 50\<rparr>"

definition example_device :: device where
  "example_device =
     \<lparr>is_on = True,
      device_color_mode = FLUX_COLOR_MODE_RGBWW,
      device_color_modes = {FLUX_COLOR_MODE_RGBWW},
      device_rgb = (255, 128, 0),
      device_rgbw = (255, 128, 0, 40),
      device_rgbcw = (255, 128, 0, 60, 40),
      device_rgbww = (255, 128, 0, 40, 60),
      device_brightness = 200,
      device_color_temp = 4000,
      min_temp = 2500,
      max_temp = 6250,
      preset_pattern_num = 0x25,
      getWhiteTemperature = (4000, 100)\<rparr>"

definition example_light :: FluxLight where
  "example_light = FluxLight_init example_library example_device [(255, 0, 0), (0, 0, 255)] 50 ''gradual''"

text \<open>The same entity constructed without custom colours.\<close>

definition example_plain_light :: FluxLight where
  "example_plain_light = FluxLight_init example_library example_device [] 50 ''gradual''"

definition no_kwargs :: kwargs where
  "no_kwargs =
     \<lparr>ATTR_BRIGHTNESS = None, ATTR_COLOR_TEMP = None, ATTR_RGB_COLOR = None,
      ATTR_RGBW_COLOR = None, ATTR_RGBWW_COLOR = None, ATTR_EFFECT = None,
      other_keys = []\<rparr>"

subsection \<open>The host's hue/saturation conversions\<close>

text \<open>
  Modelled from the host library's documentation: \<open>color_RGB_to_hs\<close> and
  \<open>color_hs_to_RGB\<close> belong to the host's colour utilities, not to light.py. The first
  divides each channel by 255.0, calls \<open>colorsys.rgb_to_hsv\<close> of Python's standard
  library and rounds the hue times 360 and the saturation times 100 to three
  decimals; the second calls \<open>colorsys.hsv_to_rgb\<close> on the hue over 360, the
  saturation over 100 and the value 1.0, and truncates each channel times 255.

  They compute in binary64 floating point. A double is modelled by its value, a
  rational number, and every arithmetic operation is the exact operation followed by
  \<open>fl\<close>, the rounding to the nearest double. The numbers that arise are far inside
  the range of the normal doubles, so that overflow and subnormal numbers are left out.
\<close>

















subsection \<open>Vocabulary of the statements\<close>

text \<open>
  The command the entry point sends before the dispatch: the native turn-on when the
  device is off, nothing when it is on.
\<close>

definition turned_on_first :: "device \<Rightarrow> command list" where
  "turned_on_first d = (if is_on d then [] else [async_turn_on])"

text \<open>An outcome of the dispatch, behind that first command.\<close>

definition after_turn_on ::
  "device \<Rightarrow> command list \<times> (error + unit) \<Rightarrow> command list \<times> (error + unit)" where
  "after_turn_on d outcome = (turned_on_first d @ fst outcome, snd outcome)"

text \<open>No colour attribute and no effect: the intent falls to the brightness-only rule.\<close>

definition no_color_or_effect :: "kwargs \<Rightarrow> bool" where
  "no_color_or_effect kw \<longleftrightarrow>
     ATTR_COLOR_TEMP kw = None \<and> ATTR_RGB_COLOR kw = None \<and> ATTR_RGBW_COLOR kw = None \<and>
     ATTR_RGBWW_COLOR kw = None \<and> ATTR_EFFECT kw = None"

section \<open>Properties\<close>

lemmas effect_names =
  EFFECT_COLORLOOP_def EFFECT_RANDOM_def EFFECT_RED_FADE_def EFFECT_GREEN_FADE_def
  EFFECT_BLUE_FADE_def EFFECT_YELLOW_FADE_def EFFECT_CYAN_FADE_def EFFECT_PURPLE_FADE_def
  EFFECT_WHITE_FADE_def EFFECT_RED_GREEN_CROSS_FADE_def EFFECT_RED_BLUE_CROSS_FADE_def
  EFFECT_GREEN_BLUE_CROSS_FADE_def EFFECT_COLORSTROBE_def EFFECT_RED_STROBE_def
  EFFECT_GREEN_STROBE_def EFFECT_BLUE_STROBE_def EFFECT_YELLOW_STROBE_def
  EFFECT_CYAN_STROBE_def EFFECT_PURPLE_STROBE_def EFFECT_WHITE_STROBE_def
  EFFECT_COLORJUMP_def EFFECT_CUSTOM_def

subsection \<open>The effect table\<close>

lemma EFFECT_MAP_eq: "EFFECT_MAP = EFFECT_MAP_items"
  by (simp add: EFFECT_MAP_def dict_of_def EFFECT_MAP_items_def effect_names)

lemma EFFECT_ID_NAME_eq: "EFFECT_ID_NAME = map (\<lambda>(k, v). (v, k)) EFFECT_MAP_items"
  by (simp add: EFFECT_ID_NAME_def EFFECT_MAP_eq dict_of_def EFFECT_MAP_items_def)

lemma distinct_names: "distinct (map fst EFFECT_MAP_items)"
  by (simp add: EFFECT_MAP_items_def effect_names)

lemma distinct_codes: "distinct (map snd EFFECT_MAP_items)"
  by (simp add: EFFECT_MAP_items_def)

lemma codes_range: "snd ` set EFFECT_MAP_items = {0x25..0x38}"
proof -
  have "snd ` set EFFECT_MAP_items = {0x25, 0x26, 0x27, 0x28, 0x29, 0x2A, 0x2B, 0x2C,
     0x2D, 0x2E, 0x2F, 0x30, 0x31, 0x32, 0x33, 0x34, 0x35, 0x36, 0x37, 0x38}"
    by (simp add: EFFECT_MAP_items_def)
  also have "\<dots> = {0x25..0x38::int}"
  proof (rule set_eqI)
    fix x :: int
    show "x \<in> {0x25, 0x26, 0x27, 0x28, 0x29, 0x2A, 0x2B, 0x2C,
     0x2D, 0x2E, 0x2F, 0x30, 0x31, 0x32, 0x33, 0x34, 0x35, 0x36, 0x37, 0x38} \<longleftrightarrow> x \<in> {0x25..0x38}"
      unfolding atLeastAtMost_iff insert_iff empty_iff by presburger
  qed
  finally show ?thesis .
qed

lemma swap_lookup:
  assumes "distinct (map fst xs)" and "distinct (map snd xs)"
  shows "map_of (map (\<lambda>(k, v). (v, k)) xs) v = Some k \<longleftrightarrow> map_of xs k = Some v"
proof -
  have fs: "map fst (map (\<lambda>(k, v). (v, k)) xs) = map snd xs"
    by (induction xs) auto
  have d: "distinct (map fst (map (\<lambda>(k, v). (v, k)) xs))"
    using assms(2) by (simp only: fs)
  have "map_of (map (\<lambda>(k, v). (v, k)) xs) v = Some k
          \<longleftrightarrow> (v, k) \<in> set (map (\<lambda>(k, v). (v, k)) xs)"
    by (rule map_of_eq_Some_iff [OF d])
  also have "\<dots> \<longleftrightarrow> (k, v) \<in> set xs"
    by auto
  also have "\<dots> \<longleftrightarrow> map_of xs k = Some v"
    using assms(1) by (simp add: map_of_eq_Some_iff)
  finally show ?thesis .
qed

text \<open>
  Claim C7. The effect table has 20 entries with distinct names, its codes are exactly
  the integers from 0x25 to 0x38, the table \<open>EFFECT_ID_NAME\<close> is its exact inverse, and
  every code in that range is mapped to a name that the effect table maps back to the
  code.
\<close>

theorem EFFECT_MAP_round_trip:
  "length EFFECT_MAP = 20
   \<and> distinct (map fst EFFECT_MAP)
   \<and> snd ` set EFFECT_MAP = {0x25..0x38}
   \<and> (\<forall>name code. map_of EFFECT_ID_NAME code = Some name \<longleftrightarrow> map_of EFFECT_MAP name = Some code)
   \<and> (\<forall>code\<in>{0x25..0x38}. \<exists>name. map_of EFFECT_ID_NAME code = Some name
          \<and> map_of EFFECT_MAP name = Some code)"
proof -
  have len: "length EFFECT_MAP = 20"
    by (simp add: EFFECT_MAP_eq EFFECT_MAP_items_def)
  have inv: "map_of EFFECT_ID_NAME code = Some name \<longleftrightarrow> map_of EFFECT_MAP name = Some code"
    for name code
    unfolding EFFECT_ID_NAME_eq EFFECT_MAP_eq
    by (rule swap_lookup [OF distinct_names distinct_codes])
  have rt: "\<exists>name. map_of EFFECT_ID_NAME code = Some name \<and> map_of EFFECT_MAP name = Some code"
    if "code \<in> {0x25..0x38}" for code
  proof -
    from that have "code \<in> snd ` set EFFECT_MAP_items"
      by (simp only: codes_range)
    then obtain name where "(name, code) \<in> set EFFECT_MAP_items"
      by force
    then have "map_of EFFECT_MAP name = Some code"
      using distinct_names by (simp add: EFFECT_MAP_eq)
    then show ?thesis using inv by blast
  qed
  show ?thesis
    using len inv rt distinct_names codes_range by (simp add: EFFECT_MAP_eq)
qed

text \<open>The round trip at the first code, 0x25, whose name is \<open>colorloop\<close>.\<close>

theorem EFFECT_MAP_round_trip_witness:
  "(0x25::int) \<in> {0x25..0x38} \<and> map_of EFFECT_ID_NAME 0x25 = Some ''colorloop''
   \<and> map_of EFFECT_MAP ''colorloop'' = Some 0x25"
proof -
  have m: "map_of EFFECT_MAP ''colorloop'' = Some 0x25"
    by (simp add: EFFECT_MAP_eq EFFECT_MAP_items_def effect_names)
  from EFFECT_MAP_round_trip have "map_of EFFECT_ID_NAME 0x25 = Some ''colorloop''
      \<longleftrightarrow> map_of EFFECT_MAP ''colorloop'' = Some 0x25"
    by blast
  with m show ?thesis by simp
qed

subsection \<open>The dispatch, rule by rule\<close>

lemma turn_on_call:
  "is_on d \<or> \<not> not_kwargs kw \<Longrightarrow>
   FluxLight_async_turn_on L self d rnd kw =
     after_turn_on d (turn_on_dispatch L self d rnd kw)"
  by (auto simp: FluxLight_async_turn_on_def turned_on_first_def after_turn_on_def
      split: prod.splits)

lemma turn_on_call_empty:
  "\<not> is_on d \<Longrightarrow> not_kwargs kw \<Longrightarrow>
   FluxLight_async_turn_on L self d rnd kw = after_turn_on d ([], Inr ())"
  by (simp add: FluxLight_async_turn_on_def turned_on_first_def after_turn_on_def)

lemma dispatch_color_temp_native:
  "ATTR_COLOR_TEMP kw = Some mired \<Longrightarrow> color_mode d \<noteq> COLOR_MODE_RGBWW \<Longrightarrow>
   turn_on_dispatch L self d rnd kw =
     ([async_set_white_temp (color_temperature_mired_to_kelvin L mired)
         (requested_brightness kw d)], Inr ())"
  by (simp add: turn_on_dispatch_def requested_brightness_def)

lemma dispatch_color_temp_rgbww:
  "ATTR_COLOR_TEMP kw = Some mired \<Longrightarrow> color_mode d = COLOR_MODE_RGBWW \<Longrightarrow>
   turn_on_dispatch L self d rnd kw =
     (case color_temp_to_white_levels L (color_temperature_mired_to_kelvin L mired)
             (requested_white_brightness kw d) of
        Inr (cold, warm) \<Rightarrow>
          ([async_set_levels (Some 0) (Some 0) (Some 0) (Some warm) (Some cold) None], Inr ())
      | Inl e \<Rightarrow> ([], Inl e))"
  by (simp add: turn_on_dispatch_def Let_def split: sum.splits prod.splits)

lemma dispatch_rgb:
  "ATTR_COLOR_TEMP kw = None \<Longrightarrow> ATTR_RGB_COLOR kw = Some (r, g, b) \<Longrightarrow>
   turn_on_dispatch L self d rnd kw =
     ([async_set_levels (Some r) (Some g) (Some b) None None (Some (requested_brightness kw d))],
      Inr ())"
  by (simp add: turn_on_dispatch_def requested_brightness_def)

lemma dispatch_rgbw:
  "ATTR_COLOR_TEMP kw = None \<Longrightarrow> ATTR_RGB_COLOR kw = None \<Longrightarrow>
   ATTR_RGBW_COLOR kw = Some c \<Longrightarrow>
   turn_on_dispatch L self d rnd kw =
     (case (case ATTR_BRIGHTNESS kw of None \<Rightarrow> c | Some v \<Rightarrow> rgbw_brightness L c v) of
        (r, g, b, w) \<Rightarrow>
          ([async_set_levels (Some r) (Some g) (Some b) (Some w) None None], Inr ()))"
  by (simp add: turn_on_dispatch_def requested_brightness_def split: prod.splits option.splits)

lemma dispatch_rgbww:
  "ATTR_COLOR_TEMP kw = None \<Longrightarrow> ATTR_RGB_COLOR kw = None \<Longrightarrow>
   ATTR_RGBW_COLOR kw = None \<Longrightarrow> ATTR_RGBWW_COLOR kw = Some c \<Longrightarrow>
   turn_on_dispatch L self d rnd kw =
     (case rgbcw_to_rgbwc L
             (case ATTR_BRIGHTNESS kw of None \<Rightarrow> c | Some v \<Rightarrow> rgbcw_brightness L c v) of
        (r, g, b, w, w2) \<Rightarrow>
          ([async_set_levels (Some r) (Some g) (Some b) (Some w) (Some w2) None], Inr ()))"
  by (simp add: turn_on_dispatch_def requested_brightness_def split: prod.splits option.splits)

lemma dispatch_effect:
  "ATTR_COLOR_TEMP kw = None \<Longrightarrow> ATTR_RGB_COLOR kw = None \<Longrightarrow>
   ATTR_RGBW_COLOR kw = None \<Longrightarrow> ATTR_RGBWW_COLOR kw = None \<Longrightarrow>
   ATTR_EFFECT kw = Some eff \<Longrightarrow>
   turn_on_dispatch L self d rnd kw =
     (if eff = EFFECT_RANDOM
      then (case rnd of (r0, g0, b0) \<Rightarrow>
              ([async_set_levels (Some r0) (Some g0) (Some b0) None None None], Inr ()))
      else if eff = EFFECT_CUSTOM
      then (if custom_effect_colors self = [] then ([], Inr ())
            else ([async_set_custom_pattern (custom_effect_colors self)
                     (custom_effect_speed_pct self) (custom_effect_transition self)], Inr ()))
      else (case map_of EFFECT_MAP eff of
              Some code \<Rightarrow> ([async_set_preset_pattern code (DEFAULT_EFFECT_SPEED L)], Inr ())
            | None \<Rightarrow> ([], Inl (ValueError_Unknown_effect eff))))"
  by (simp add: turn_on_dispatch_def split: prod.splits)

lemma dispatch_brightness_only:
  "no_color_or_effect kw \<Longrightarrow>
   turn_on_dispatch L self d rnd kw =
     (case color_mode d of
        COLOR_MODE_COLOR_TEMP \<Rightarrow>
          ([async_set_white_temp (device_color_temp d) (requested_brightness kw d)], Inr ())
      | COLOR_MODE_RGB \<Rightarrow>
          (case rgb_color L d of (r, g, b) \<Rightarrow>
             ([async_set_levels (Some r) (Some g) (Some b) None None
                 (Some (requested_brightness kw d))], Inr ()))
      | COLOR_MODE_RGBW \<Rightarrow>
          (case rgbw_brightness L (rgbw_color d) (requested_brightness kw d) of (r, g, b, w) \<Rightarrow>
             ([async_set_levels (Some r) (Some g) (Some b) (Some w) None None], Inr ()))
      | COLOR_MODE_RGBWW \<Rightarrow>
          (case rgbww_brightness L (rgbwc_color d) (requested_brightness kw d) of
             (r, g, b, w, w2) \<Rightarrow>
               ([async_set_levels (Some r) (Some g) (Some b) (Some w) (Some w2) None], Inr ()))
      | COLOR_MODE_BRIGHTNESS \<Rightarrow>
          ([async_set_levels None None None (Some (requested_brightness kw d)) None None],
           Inr ())
      | COLOR_MODE_ONOFF \<Rightarrow> ([], Inl (ValueError_Unsupported_color_mode COLOR_MODE_ONOFF)))"
  by (cases "color_mode d")
     (simp_all add: turn_on_dispatch_def no_color_or_effect_def requested_brightness_def
        split: prod.splits)

lemma dispatch_cases:
  obtains (color_temp) mired where "ATTR_COLOR_TEMP kw = Some mired"
  | (rgb) c where "ATTR_COLOR_TEMP kw = None" "ATTR_RGB_COLOR kw = Some c"
  | (rgbw) c where "ATTR_COLOR_TEMP kw = None" "ATTR_RGB_COLOR kw = None"
      "ATTR_RGBW_COLOR kw = Some c"
  | (rgbww) c where "ATTR_COLOR_TEMP kw = None" "ATTR_RGB_COLOR kw = None"
      "ATTR_RGBW_COLOR kw = None" "ATTR_RGBWW_COLOR kw = Some c"
  | (effect) eff where "ATTR_COLOR_TEMP kw = None" "ATTR_RGB_COLOR kw = None"
      "ATTR_RGBW_COLOR kw = None" "ATTR_RGBWW_COLOR kw = None" "ATTR_EFFECT kw = Some eff"
  | (brightness_only) "no_color_or_effect kw"
  unfolding no_color_or_effect_def by (meson option.exhaust)

lemma dispatch_at_most_one:
  "length (fst (turn_on_dispatch L self d rnd kw)) \<le> 1
   \<and> async_turn_on \<notin> set (fst (turn_on_dispatch L self d rnd kw))"
proof (cases kw rule: dispatch_cases)
  case (color_temp mired)
  then show ?thesis
    by (cases "color_mode d = COLOR_MODE_RGBWW")
       (simp_all add: dispatch_color_temp_native dispatch_color_temp_rgbww
          split: sum.splits prod.splits)
next
  case (rgb c)
  then show ?thesis by (cases c) (simp add: dispatch_rgb)
next
  case (rgbw c)
  then show ?thesis by (simp add: dispatch_rgbw split: prod.splits)
next
  case (rgbww c)
  then show ?thesis by (simp add: dispatch_rgbww split: prod.splits)
next
  case (effect eff)
  then show ?thesis by (simp add: dispatch_effect split: prod.splits option.splits)
next
  case brightness_only
  then show ?thesis
    by (simp add: dispatch_brightness_only split: prod.splits hass_color_mode.splits)
qed

subsection \<open>The example collaborators, evaluated\<close>

lemma to_hass_simps:
  "to_hass FLUX_COLOR_MODE_RGB = COLOR_MODE_RGB"
  "to_hass FLUX_COLOR_MODE_RGBW = COLOR_MODE_RGBW"
  "to_hass FLUX_COLOR_MODE_RGBWW = COLOR_MODE_RGBWW"
  "to_hass FLUX_COLOR_MODE_CCT = COLOR_MODE_COLOR_TEMP"
  "to_hass FLUX_COLOR_MODE_DIM = COLOR_MODE_BRIGHTNESS"
  "to_hass (FLUX_COLOR_MODE_OTHER s) = COLOR_MODE_ONOFF"
  by (simp_all add: to_hass_def FLUX_COLOR_MODE_TO_HASS_def dict_of_def)

lemma example_light_fields:
  "custom_effect_colors example_light = [(255, 0, 0), (0, 0, 255)]"
  "custom_effect_speed_pct example_light = 50"
  "custom_effect_transition example_light = ''gradual''"
  "attr_min_mireds example_light = 161"
  "attr_max_mireds example_light = 400"
  by (simp_all add: example_light_def FluxLight_init_def Let_def example_library_def
      example_device_def)

lemma example_plain_light_fields:
  "custom_effect_colors example_plain_light = []"
  by (simp add: example_plain_light_def FluxLight_init_def Let_def)

lemma effect_name_lookups:
  "map_of EFFECT_MAP EFFECT_CUSTOM = None"
  "map_of EFFECT_MAP EFFECT_RANDOM = None"
  "map_of EFFECT_MAP ''nonexistent_effect'' = None"
  "map_of EFFECT_MAP ''colorjump'' = Some 0x38"
  "EFFECT_RANDOM \<noteq> EFFECT_CUSTOM"
  "''nonexistent_effect'' \<noteq> EFFECT_RANDOM"
  "''nonexistent_effect'' \<noteq> EFFECT_CUSTOM"
  "''colorjump'' \<noteq> EFFECT_RANDOM"
  "''colorjump'' \<noteq> EFFECT_CUSTOM"
  "EFFECT_CUSTOM \<noteq> EFFECT_RANDOM"
  by (simp_all add: EFFECT_MAP_eq EFFECT_MAP_items_def effect_names)

lemmas example_defs =
  example_library_def example_device_def no_kwargs_def example_scale_def
  requested_brightness_def requested_white_brightness_def brightness_def color_mode_def
  rgb_color_def rgbw_color_def rgbwc_color_def turned_on_first_def after_turn_on_def
  no_color_or_effect_def not_kwargs_def to_hass_simps example_light_fields

subsection \<open>The colour-temperature rule\<close>

text \<open>
  Claim C1, as amended. When the intent holds a colour temperature, the call converts
  the mired value to kelvin. In RGBWW mode it calls the white-levels conversion with
  that kelvin value and the brightness of the white pair, or the supplied brightness
  when there is one; when the conversion returns \<open>(cold, warm)\<close>, the call issues,
  after the turn-on of a device that was off, the single levels command with
  \<open>r = g = b = 0\<close>, \<open>w = warm\<close>, \<open>w2 = cold\<close> and returns; when the conversion
  raises, the call ends with that exception and has issued no levels command. In
  every other mode the single command is the white-temperature command with the
  kelvin value and the supplied brightness, or else the brightness the device reports,
  and no levels command is issued.
\<close>

theorem color_temp_intent:
  assumes "ATTR_COLOR_TEMP kw = Some mired"
  shows "FluxLight_async_turn_on L self d rnd kw =
     (if color_mode d = COLOR_MODE_RGBWW
      then (case color_temp_to_white_levels L (color_temperature_mired_to_kelvin L mired)
                   (case ATTR_BRIGHTNESS kw of
                      None \<Rightarrow> snd (getWhiteTemperature d)
                    | Some supplied \<Rightarrow> supplied) of
              Inr (cold, warm) \<Rightarrow>
                (turned_on_first d @
                   [async_set_levels (Some 0) (Some 0) (Some 0) (Some warm) (Some cold) None],
                 Inr ())
            | Inl e \<Rightarrow> (turned_on_first d, Inl e))
      else (turned_on_first d @
              [async_set_white_temp (color_temperature_mired_to_kelvin L mired)
                 (case ATTR_BRIGHTNESS kw of
                    None \<Rightarrow> device_brightness d
                  | Some supplied \<Rightarrow> supplied)],
            Inr ()))"
proof -
  from assms have "\<not> not_kwargs kw"
    by (simp add: not_kwargs_def)
  then have call: "FluxLight_async_turn_on L self d rnd kw =
      after_turn_on d (turn_on_dispatch L self d rnd kw)"
    by (simp add: turn_on_call)
  show ?thesis
  proof (cases "color_mode d = COLOR_MODE_RGBWW")
    case True
    with assms call show ?thesis
      by (simp add: dispatch_color_temp_rgbww after_turn_on_def requested_white_brightness_def
          split: sum.splits prod.splits)
  next
    case False
    with assms call show ?thesis
      by (simp add: dispatch_color_temp_native after_turn_on_def requested_brightness_def
          brightness_def split: option.splits)
  qed
qed

text \<open>
  The RGBWW device, which is on, asked for 250 mired (4000 K): without a brightness
  the white pair's brightness 100 is converted, with brightness 255 that one is. At
  100 mired (10000 K) the conversion raises. A device in the colour-temperature mode,
  off and then on, with the reported brightness 200 and with a supplied one.
\<close>

theorem color_temp_intent_witness:
  "ATTR_COLOR_TEMP (no_kwargs\<lparr>ATTR_COLOR_TEMP := Some 250\<rparr>) = Some 250
   \<and> color_mode example_device = COLOR_MODE_RGBWW
   \<and> FluxLight_async_turn_on example_library example_light example_device (7, 8, 9)
        (no_kwargs\<lparr>ATTR_COLOR_TEMP := Some 250\<rparr>) =
      ([async_set_levels (Some 0) (Some 0) (Some 0) (Some 65) (Some 35) None], Inr ())
   \<and> FluxLight_async_turn_on example_library example_light example_device (7, 8, 9)
        (no_kwargs\<lparr>ATTR_COLOR_TEMP := Some 250, ATTR_BRIGHTNESS := Some 255\<rparr>) =
      ([async_set_levels (Some 0) (Some 0) (Some 0) (Some 167) (Some 88) None], Inr ())
   \<and> FluxLight_async_turn_on example_library example_light example_device (7, 8, 9)
        (no_kwargs\<lparr>ATTR_COLOR_TEMP := Some 100\<rparr>) =
      ([], Inl (ValueError_color_temp_to_white_levels 10000 100))
   \<and> FluxLight_async_turn_on example_library example_light
        (example_device\<lparr>device_color_mode := FLUX_COLOR_MODE_CCT, is_on := False\<rparr>) (7, 8, 9)
        (no_kwargs\<lparr>ATTR_COLOR_TEMP := Some 250\<rparr>) =
      ([async_turn_on, async_set_white_temp 4000 200], Inr ())
   \<and> FluxLight_async_turn_on example_library example_light
        (example_device\<lparr>device_color_mode := FLUX_COLOR_MODE_CCT\<rparr>) (7, 8, 9)
        (no_kwargs\<lparr>ATTR_COLOR_TEMP := Some 250, ATTR_BRIGHTNESS := Some 10\<rparr>) =
      ([async_set_white_temp 4000 10], Inr ())"
  using
    color_temp_intent [of "no_kwargs\<lparr>ATTR_COLOR_TEMP := Some 250\<rparr>" 250 example_library
      example_light example_device "(7, 8, 9)"]
    color_temp_intent [of "no_kwargs\<lparr>ATTR_COLOR_TEMP := Some 250, ATTR_BRIGHTNESS := Some 255\<rparr>"
      250 example_library example_light example_device "(7, 8, 9)"]
    color_temp_intent [of "no_kwargs\<lparr>ATTR_COLOR_TEMP := Some 100\<rparr>" 100 example_library
      example_light example_device "(7, 8, 9)"]
    color_temp_intent [of "no_kwargs\<lparr>ATTR_COLOR_TEMP := Some 250\<rparr>" 250 example_library
      example_light "example_device\<lparr>device_color_mode := FLUX_COLOR_MODE_CCT, is_on := False\<rparr>"
      "(7, 8, 9)"]
    color_temp_intent [of "no_kwargs\<lparr>ATTR_COLOR_TEMP := Some 250, ATTR_BRIGHTNESS := Some 10\<rparr>"
      250 example_library example_light
      "example_device\<lparr>device_color_mode := FLUX_COLOR_MODE_CCT\<rparr>" "(7, 8, 9)"]
  by (simp add: example_defs)

text \<open>
  The claim as it was stated has a levels command issued for every colour temperature
  in RGBWW mode. At 153 mired, which is 6535 K, the conversion raises, and the call
  ends with that exception without a command.
\<close>

theorem color_temp_intent_counterexample:
  "color_mode example_device = COLOR_MODE_RGBWW \<and> is_on example_device
   \<and> color_temperature_mired_to_kelvin example_library 153 = 6535
   \<and> FluxLight_async_turn_on example_library example_light example_device (7, 8, 9)
        (no_kwargs\<lparr>ATTR_COLOR_TEMP := Some 153\<rparr>) =
      ([], Inl (ValueError_color_temp_to_white_levels 6535 100))"
  by (simp add: FluxLight_async_turn_on_def turn_on_dispatch_def example_defs)

subsection \<open>The turn-on sequence\<close>

text \<open>
  Claim C2, as amended. When the device is off, the first command of the call is the
  native turn-on, it is issued once, and with no keyword argument it is the only
  command and the call returns. When the device is on, the native turn-on is not
  issued, and a call with a brightness of 128 and no colour or effect re-issues the
  current colour at brightness 128 by the branch of the current colour mode: the
  device's kelvin value in the colour-temperature mode, its rgb triple taken through
  hue/saturation in RGB mode, its rgbw and rgbww levels rescaled by the brightness
  helpers in RGBW and RGBWW mode, the white channel alone in brightness mode. In a
  mode that is none of these five nothing is re-issued: the call raises the
  unsupported-mode error without a command.
\<close>

theorem turn_on_sequence:
  "(\<not> is_on d \<longrightarrow>
      (\<exists>rest. fst (FluxLight_async_turn_on L self d rnd kw) = async_turn_on # rest
          \<and> async_turn_on \<notin> set rest)
      \<and> (not_kwargs kw \<longrightarrow>
            FluxLight_async_turn_on L self d rnd kw = ([async_turn_on], Inr ())))
   \<and> (is_on d \<longrightarrow>
      async_turn_on \<notin> set (fst (FluxLight_async_turn_on L self d rnd kw))
      \<and> (no_color_or_effect kw \<and> ATTR_BRIGHTNESS kw = Some 128 \<longrightarrow>
           FluxLight_async_turn_on L self d rnd kw =
             (case to_hass (device_color_mode d) of
                COLOR_MODE_COLOR_TEMP \<Rightarrow>
                  ([async_set_white_temp (device_color_temp d) 128], Inr ())
              | COLOR_MODE_RGB \<Rightarrow>
                  (case color_hs_to_RGB L (color_RGB_to_hs L (device_rgb d)) of (r, g, b) \<Rightarrow>
                     ([async_set_levels (Some r) (Some g) (Some b) None None (Some 128)],
                      Inr ()))
              | COLOR_MODE_RGBW \<Rightarrow>
                  (case rgbw_brightness L (device_rgbw d) 128 of (r, g, b, w) \<Rightarrow>
                     ([async_set_levels (Some r) (Some g) (Some b) (Some w) None None],
                      Inr ()))
              | COLOR_MODE_RGBWW \<Rightarrow>
                  (case rgbww_brightness L (device_rgbww d) 128 of (r, g, b, w, w2) \<Rightarrow>
                     ([async_set_levels (Some r) (Some g) (Some b) (Some w) (Some w2) None],
                      Inr ()))
              | COLOR_MODE_BRIGHTNESS \<Rightarrow>
                  ([async_set_levels None None None (Some 128) None None], Inr ())
              | COLOR_MODE_ONOFF \<Rightarrow>
                  ([], Inl (ValueError_Unsupported_color_mode COLOR_MODE_ONOFF)))))"
proof -
  have off: "\<exists>rest. fst (FluxLight_async_turn_on L self d rnd kw) = async_turn_on # rest
      \<and> async_turn_on \<notin> set rest" if "\<not> is_on d"
  proof (cases "not_kwargs kw")
    case True
    with that show ?thesis
      by (simp add: turn_on_call_empty after_turn_on_def turned_on_first_def)
  next
    case False
    with that show ?thesis
      using dispatch_at_most_one [of L self d rnd kw]
      by (simp add: turn_on_call after_turn_on_def turned_on_first_def)
  qed
  have empty: "FluxLight_async_turn_on L self d rnd kw = ([async_turn_on], Inr ())"
    if "\<not> is_on d" "not_kwargs kw"
    using that by (simp add: turn_on_call_empty after_turn_on_def turned_on_first_def)
  have on: "async_turn_on \<notin> set (fst (FluxLight_async_turn_on L self d rnd kw))" if "is_on d"
    using that dispatch_at_most_one [of L self d rnd kw]
    by (simp add: turn_on_call after_turn_on_def turned_on_first_def)
  have bri: "FluxLight_async_turn_on L self d rnd kw =
             (case to_hass (device_color_mode d) of
                COLOR_MODE_COLOR_TEMP \<Rightarrow>
                  ([async_set_white_temp (device_color_temp d) 128], Inr ())
              | COLOR_MODE_RGB \<Rightarrow>
                  (case color_hs_to_RGB L (color_RGB_to_hs L (device_rgb d)) of (r, g, b) \<Rightarrow>
                     ([async_set_levels (Some r) (Some g) (Some b) None None (Some 128)],
                      Inr ()))
              | COLOR_MODE_RGBW \<Rightarrow>
                  (case rgbw_brightness L (device_rgbw d) 128 of (r, g, b, w) \<Rightarrow>
                     ([async_set_levels (Some r) (Some g) (Some b) (Some w) None None],
                      Inr ()))
              | COLOR_MODE_RGBWW \<Rightarrow>
                  (case rgbww_brightness L (device_rgbww d) 128 of (r, g, b, w, w2) \<Rightarrow>
                     ([async_set_levels (Some r) (Some g) (Some b) (Some w) (Some w2) None],
                      Inr ()))
              | COLOR_MODE_BRIGHTNESS \<Rightarrow>
                  ([async_set_levels None None None (Some 128) None None], Inr ())
              | COLOR_MODE_ONOFF \<Rightarrow>
                  ([], Inl (ValueError_Unsupported_color_mode COLOR_MODE_ONOFF)))"
    if "is_on d" "no_color_or_effect kw" "ATTR_BRIGHTNESS kw = Some 128"
  proof -
    have rb: "requested_brightness kw d = 128"
      using that(3) by (simp add: requested_brightness_def)
    have "FluxLight_async_turn_on L self d rnd kw = turn_on_dispatch L self d rnd kw"
      using that(1) by (simp add: turn_on_call after_turn_on_def turned_on_first_def)
    then show ?thesis
      by (simp only: dispatch_brightness_only [OF that(2)] rb color_mode_def rgb_color_def
          rgbw_color_def rgbwc_color_def)
  qed
  from off empty on bri show ?thesis by blast
qed

text \<open>
  A device that is off, called without arguments; the example device that is on,
  called with brightness 128 alone in each of the five modes: it holds rgbww levels
  (255, 128, 0, 40, 60), rgbw levels (255, 128, 0, 40), the rgb triple (255, 128, 0)
  and 4000 K.
\<close>

theorem turn_on_sequence_witness:
  "\<not> is_on (example_device\<lparr>is_on := False\<rparr>) \<and> not_kwargs no_kwargs
   \<and> FluxLight_async_turn_on example_library example_light (example_device\<lparr>is_on := False\<rparr>)
        (7, 8, 9) no_kwargs = ([async_turn_on], Inr ())
   \<and> is_on example_device \<and> no_color_or_effect (no_kwargs\<lparr>ATTR_BRIGHTNESS := Some 128\<rparr>)
   \<and> FluxLight_async_turn_on example_library example_light example_device (7, 8, 9)
        (no_kwargs\<lparr>ATTR_BRIGHTNESS := Some 128\<rparr>) =
      ([async_set_levels (Some 128) (Some 64) (Some 0) (Some 20) (Some 30) None], Inr ())
   \<and> FluxLight_async_turn_on example_library example_light
        (example_device\<lparr>device_color_mode := FLUX_COLOR_MODE_RGBW\<rparr>) (7, 8, 9)
        (no_kwargs\<lparr>ATTR_BRIGHTNESS := Some 128\<rparr>) =
      ([async_set_levels (Some 128) (Some 64) (Some 0) (Some 20) None None], Inr ())
   \<and> FluxLight_async_turn_on example_library example_light
        (example_device\<lparr>device_color_mode := FLUX_COLOR_MODE_RGB\<rparr>) (7, 8, 9)
        (no_kwargs\<lparr>ATTR_BRIGHTNESS := Some 128\<rparr>) =
      ([async_set_levels (Some 255) (Some 128) (Some 0) None None (Some 128)], Inr ())
   \<and> FluxLight_async_turn_on example_library example_light
        (example_device\<lparr>device_color_mode := FLUX_COLOR_MODE_CCT\<rparr>) (7, 8, 9)
        (no_kwargs\<lparr>ATTR_BRIGHTNESS := Some 128\<rparr>) =
      ([async_set_white_temp 4000 128], Inr ())
   \<and> FluxLight_async_turn_on example_library example_light
        (example_device\<lparr>device_color_mode := FLUX_COLOR_MODE_DIM\<rparr>) (7, 8, 9)
        (no_kwargs\<lparr>ATTR_BRIGHTNESS := Some 128\<rparr>) =
      ([async_set_levels None None None (Some 128) None None], Inr ())"
  using turn_on_sequence [of "example_device\<lparr>is_on := False\<rparr>" example_library example_light
      "(7, 8, 9)" no_kwargs]
    turn_on_sequence [of example_device example_library example_light "(7, 8, 9)"
      "no_kwargs\<lparr>ATTR_BRIGHTNESS := Some 128\<rparr>"]
    turn_on_sequence [of "example_device\<lparr>device_color_mode := FLUX_COLOR_MODE_RGBW\<rparr>"
      example_library example_light "(7, 8, 9)" "no_kwargs\<lparr>ATTR_BRIGHTNESS := Some 128\<rparr>"]
    turn_on_sequence [of "example_device\<lparr>device_color_mode := FLUX_COLOR_MODE_RGB\<rparr>"
      example_library example_light "(7, 8, 9)" "no_kwargs\<lparr>ATTR_BRIGHTNESS := Some 128\<rparr>"]
    turn_on_sequence [of "example_device\<lparr>device_color_mode := FLUX_COLOR_MODE_CCT\<rparr>"
      example_library example_light "(7, 8, 9)" "no_kwargs\<lparr>ATTR_BRIGHTNESS := Some 128\<rparr>"]
    turn_on_sequence [of "example_device\<lparr>device_color_mode := FLUX_COLOR_MODE_DIM\<rparr>"
      example_library example_light "(7, 8, 9)" "no_kwargs\<lparr>ATTR_BRIGHTNESS := Some 128\<rparr>"]
  by (simp add: example_defs)

text \<open>
  The claim as it was stated has the current colour re-issued whenever the device is
  on. A device that reports a native mode outside the table is in the on/off mode:
  the call with brightness 128 alone raises and issues nothing.
\<close>

theorem turn_on_sequence_counterexample:
  "is_on (example_device\<lparr>device_color_mode := FLUX_COLOR_MODE_OTHER ''ADDRESSABLE''\<rparr>)
   \<and> color_mode (example_device\<lparr>device_color_mode := FLUX_COLOR_MODE_OTHER ''ADDRESSABLE''\<rparr>) =
       COLOR_MODE_ONOFF
   \<and> FluxLight_async_turn_on example_library example_light
        (example_device\<lparr>device_color_mode := FLUX_COLOR_MODE_OTHER ''ADDRESSABLE''\<rparr>) (7, 8, 9)
        (no_kwargs\<lparr>ATTR_BRIGHTNESS := Some 128\<rparr>) =
      ([], Inl (ValueError_Unsupported_color_mode COLOR_MODE_ONOFF))"
  by (simp add: FluxLight_async_turn_on_def turn_on_dispatch_def example_defs)

subsection \<open>The effect rule: unknown names\<close>

text \<open>
  Claim C4, as amended. For an effect name that is not in the preset table and is
  neither RANDOM nor CUSTOM, in an intent without colour temperature, rgb, rgbw and
  rgbww attribute, the call raises the unknown-effect error, and the only command it
  has issued by then is the native turn-on of a device that was off: none at all when
  the device is on.
\<close>

theorem unknown_effect_raises:
  assumes "ATTR_EFFECT kw = Some eff"
    and "map_of EFFECT_MAP eff = None" and "eff \<noteq> EFFECT_RANDOM" and "eff \<noteq> EFFECT_CUSTOM"
    and "ATTR_COLOR_TEMP kw = None" and "ATTR_RGB_COLOR kw = None"
    and "ATTR_RGBW_COLOR kw = None" and "ATTR_RGBWW_COLOR kw = None"
  shows "FluxLight_async_turn_on L self d rnd kw =
           (turned_on_first d, Inl (ValueError_Unknown_effect eff))
         \<and> (is_on d \<longrightarrow> fst (FluxLight_async_turn_on L self d rnd kw) = [])"
proof -
  from assms(1) have "\<not> not_kwargs kw"
    by (simp add: not_kwargs_def)
  then have "FluxLight_async_turn_on L self d rnd kw =
      after_turn_on d (turn_on_dispatch L self d rnd kw)"
    by (simp add: turn_on_call)
  also have "turn_on_dispatch L self d rnd kw = ([], Inl (ValueError_Unknown_effect eff))"
    using assms by (simp add: dispatch_effect)
  finally show ?thesis
    by (simp add: after_turn_on_def turned_on_first_def)
qed

text \<open>The name \<open>nonexistent_effect\<close>, alone in the intent, on a device that is on.\<close>

theorem unknown_effect_raises_witness:
  "map_of EFFECT_MAP ''nonexistent_effect'' = None
   \<and> FluxLight_async_turn_on example_library example_light example_device (7, 8, 9)
        (no_kwargs\<lparr>ATTR_EFFECT := Some ''nonexistent_effect''\<rparr>) =
      ([], Inl (ValueError_Unknown_effect ''nonexistent_effect''))"
  using unknown_effect_raises [of "no_kwargs\<lparr>ATTR_EFFECT := Some ''nonexistent_effect''\<rparr>"
      "''nonexistent_effect''" example_library example_light example_device "(7, 8, 9)"]
  by (simp add: example_defs effect_name_lookups)

text \<open>
  The claim as it was stated asks for zero commands and for the error whenever the
  name is unknown. On a device that is off the turn-on command has been issued when
  the error is raised; and with an rgb colour in the same intent the rgb rule wins, a
  levels command is issued and nothing is raised.
\<close>

theorem unknown_effect_counterexample:
  "map_of EFFECT_MAP ''nonexistent_effect'' = None
   \<and> ''nonexistent_effect'' \<noteq> EFFECT_RANDOM \<and> ''nonexistent_effect'' \<noteq> EFFECT_CUSTOM
   \<and> FluxLight_async_turn_on example_library example_light (example_device\<lparr>is_on := False\<rparr>)
        (7, 8, 9) (no_kwargs\<lparr>ATTR_EFFECT := Some ''nonexistent_effect''\<rparr>) =
      ([async_turn_on], Inl (ValueError_Unknown_effect ''nonexistent_effect''))
   \<and> FluxLight_async_turn_on example_library example_light example_device (7, 8, 9)
        (no_kwargs\<lparr>ATTR_EFFECT := Some ''nonexistent_effect'',
           ATTR_RGB_COLOR := Some (255, 0, 0)\<rparr>) =
      ([async_set_levels (Some 255) (Some 0) (Some 0) None None (Some 200)], Inr ())"
  by (simp add: FluxLight_async_turn_on_def turn_on_dispatch_def example_defs
      effect_name_lookups)

subsection \<open>The effect rule: the custom effect\<close>

text \<open>
  Claim C5, as amended. When the effect of the intent is CUSTOM and the intent has no
  colour temperature, rgb, rgbw or rgbww attribute, the call raises nothing. With an
  empty configured colour list it issues no command but the native turn-on of a device
  that was off; with a non-empty list it issues, after that turn-on if any, exactly
  one custom-pattern command with the stored colours, speed percentage and transition.
\<close>

theorem custom_effect_intent:
  assumes "ATTR_EFFECT kw = Some EFFECT_CUSTOM"
    and "ATTR_COLOR_TEMP kw = None" and "ATTR_RGB_COLOR kw = None"
    and "ATTR_RGBW_COLOR kw = None" and "ATTR_RGBWW_COLOR kw = None"
  shows "FluxLight_async_turn_on L self d rnd kw =
           (if custom_effect_colors self = [] then (turned_on_first d, Inr ())
            else (turned_on_first d @
                    [async_set_custom_pattern (custom_effect_colors self)
                       (custom_effect_speed_pct self) (custom_effect_transition self)],
                  Inr ()))"
proof -
  from assms(1) have "\<not> not_kwargs kw"
    by (simp add: not_kwargs_def)
  then have "FluxLight_async_turn_on L self d rnd kw =
      after_turn_on d (turn_on_dispatch L self d rnd kw)"
    by (simp add: turn_on_call)
  also have "turn_on_dispatch L self d rnd kw =
      (if custom_effect_colors self = [] then ([], Inr ())
       else ([async_set_custom_pattern (custom_effect_colors self)
                (custom_effect_speed_pct self) (custom_effect_transition self)], Inr ()))"
    using assms by (simp add: dispatch_effect effect_name_lookups)
  finally show ?thesis
    by (simp add: after_turn_on_def)
qed

text \<open>The custom effect on a device that is on, without and with configured colours.\<close>

theorem custom_effect_intent_witness:
  "FluxLight_async_turn_on example_library example_plain_light example_device (7, 8, 9)
        (no_kwargs\<lparr>ATTR_EFFECT := Some EFFECT_CUSTOM\<rparr>) = ([], Inr ())
   \<and> FluxLight_async_turn_on example_library example_light example_device (7, 8, 9)
        (no_kwargs\<lparr>ATTR_EFFECT := Some EFFECT_CUSTOM\<rparr>) =
      ([async_set_custom_pattern [(255, 0, 0), (0, 0, 255)] 50 ''gradual''], Inr ())"
  using custom_effect_intent [of "no_kwargs\<lparr>ATTR_EFFECT := Some EFFECT_CUSTOM\<rparr>"
      example_library example_plain_light example_device "(7, 8, 9)"]
    custom_effect_intent [of "no_kwargs\<lparr>ATTR_EFFECT := Some EFFECT_CUSTOM\<rparr>"
      example_library example_light example_device "(7, 8, 9)"]
  by (simp add: example_defs example_plain_light_fields)

text \<open>
  The claim as it was stated asks for zero commands with an empty list and for one
  custom-pattern command with a non-empty one. With an empty list and a device that is
  off the call issues the turn-on command; with a non-empty list and an rgb colour in
  the same intent the rgb rule wins and no custom-pattern command is issued.
\<close>

theorem custom_effect_counterexample:
  "custom_effect_colors example_plain_light = []
   \<and> FluxLight_async_turn_on example_library example_plain_light
        (example_device\<lparr>is_on := False\<rparr>) (7, 8, 9)
        (no_kwargs\<lparr>ATTR_EFFECT := Some EFFECT_CUSTOM\<rparr>) = ([async_turn_on], Inr ())
   \<and> custom_effect_colors example_light \<noteq> []
   \<and> FluxLight_async_turn_on example_library example_light example_device (7, 8, 9)
        (no_kwargs\<lparr>ATTR_EFFECT := Some EFFECT_CUSTOM, ATTR_RGB_COLOR := Some (255, 0, 0)\<rparr>) =
      ([async_set_levels (Some 255) (Some 0) (Some 0) None None (Some 200)], Inr ())"
  by (simp add: FluxLight_async_turn_on_def turn_on_dispatch_def example_defs
      example_plain_light_fields effect_name_lookups)

subsection \<open>The mired range\<close>

text \<open>
  Claim C6, as amended. The minimum mired is the conversion of the device's maximum
  kelvin plus one, and the maximum mired is the conversion of the device's minimum
  kelvin: the offset of one is on the minimum mired bound, the coolest one, and the
  warmest bound carries no offset.
\<close>

theorem mired_range:
  "attr_min_mireds (FluxLight_init L d colors speed_pct transition) =
     color_temperature_kelvin_to_mired L (max_temp d) + 1
   \<and> attr_max_mireds (FluxLight_init L d colors speed_pct transition) =
     color_temperature_kelvin_to_mired L (min_temp d)"
  by (simp add: FluxLight_init_def Let_def)

text \<open>The range of the example device, 2500 K to 6250 K: 161 to 400 mired.\<close>

theorem mired_range_witness:
  "attr_min_mireds example_light = 161 \<and> attr_max_mireds example_light = 400"
  using mired_range [of example_library example_device "[(255, 0, 0), (0, 0, 255)]" 50
      "''gradual''"]
  by (simp add: example_light_def example_library_def example_device_def)

text \<open>
  The claim as it was stated puts the offset on the warmest bound, which is the
  maximum mired, obtained from the minimum kelvin. For the example device that bound
  is 400, the plain conversion of 2500 K, and the minimum mired is not the plain
  conversion of 6250 K.
\<close>

theorem mired_range_counterexample:
  "min_temp example_device < max_temp example_device
   \<and> \<not> (attr_max_mireds example_light =
           color_temperature_kelvin_to_mired example_library (min_temp example_device) + 1
         \<and> attr_min_mireds example_light =
           color_temperature_kelvin_to_mired example_library (max_temp example_device))"
  by (simp add: example_light_fields example_library_def example_device_def)

subsection \<open>The advertised effect list\<close>

lemma custom_not_in_FLUX_EFFECT_LIST: "EFFECT_CUSTOM \<notin> set FLUX_EFFECT_LIST"
  by (simp add: FLUX_EFFECT_LIST_def EFFECT_MAP_eq EFFECT_MAP_items_def effect_names)

lemma perform_keeps_entity: "fst (perform L self c) = self"
  by (cases c) simp_all

lemma run_keeps_entity: "run L self calls = self"
  by (induction calls arbitrary: self) (simp_all add: perform_keeps_entity)

text \<open>
  Claim C10. After any sequence of calls on a constructed entity, its effect list
  holds the CUSTOM name if and only if the colour list given to the constructor was
  not empty and the supported colour modes, which are the images of the device's native
  modes, meet RGB, RGBW or RGBWW; and the custom colours, speed and transition are
  still the ones given to the constructor.
\<close>

theorem custom_effect_advertised:
  "(advertises (run L (FluxLight_init L d colors speed_pct transition) calls) EFFECT_CUSTOM
      \<longleftrightarrow> colors \<noteq> []
          \<and> attr_supported_color_modes (FluxLight_init L d colors speed_pct transition)
              \<inter> {COLOR_MODE_RGB, COLOR_MODE_RGBW, COLOR_MODE_RGBWW} \<noteq> {})
   \<and> attr_supported_color_modes (FluxLight_init L d colors speed_pct transition) =
       to_hass ` device_color_modes d
   \<and> custom_effect_colors (run L (FluxLight_init L d colors speed_pct transition) calls) =
       colors
   \<and> custom_effect_speed_pct (run L (FluxLight_init L d colors speed_pct transition) calls) =
       speed_pct
   \<and> custom_effect_transition (run L (FluxLight_init L d colors speed_pct transition) calls) =
       transition"
  using custom_not_in_FLUX_EFFECT_LIST
  by (simp add: run_keeps_entity advertises_def FluxLight_init_def Let_def
      EFFECT_SUPPORT_MODES_def)

text \<open>
  The example entity after a turn-on call and a set-custom-effect call with other
  colours; the entity constructed without colours.
\<close>

theorem custom_effect_advertised_witness:
  "advertises
     (run example_library example_light
        [Call_turn_on example_device (7, 8, 9) (no_kwargs\<lparr>ATTR_EFFECT := Some EFFECT_CUSTOM\<rparr>),
         Call_set_custom_effect [(0, 255, 0)] 80 ''jump''])
     EFFECT_CUSTOM
   \<and> \<not> advertises (run example_library example_plain_light []) EFFECT_CUSTOM"
  using custom_effect_advertised [of example_library example_device
      "[(255, 0, 0), (0, 0, 255)]" 50 "''gradual''"
      "[Call_turn_on example_device (7, 8, 9) (no_kwargs\<lparr>ATTR_EFFECT := Some EFFECT_CUSTOM\<rparr>),
        Call_set_custom_effect [(0, 255, 0)] 80 ''jump'']"]
    custom_effect_advertised [of example_library example_device "[]" 50 "''gradual''" "[]"]
  by (simp add: example_light_def example_plain_light_def example_device_def to_hass_simps)

subsection \<open>The priority of the rules\<close>

text \<open>
  Claim C3, as amended. For every combination of the optional attributes, the rules
  are tried in the order colour temperature, rgb, rgbw, rgbww, effect, brightness
  only, and the first rule whose attribute is present decides the outcome, whatever
  the attributes of the later rules are: each line below gives the outcome of a rule
  under the sole condition that the attributes of the earlier rules are absent. The
  rules issue at most one command per intent, none of them the turn-on; it follows
  the native turn-on command when the device was off, so that a call issues at most
  two commands. With a colour temperature and an rgb colour both supplied, the only
  command of the rules is the one of the colour-temperature rule.
\<close>

theorem dispatch_priority:
  "(\<exists>cmds res. FluxLight_async_turn_on L self d rnd kw = after_turn_on d (cmds, res)
       \<and> length cmds \<le> 1 \<and> async_turn_on \<notin> set cmds)
   \<and> (\<forall>mired. ATTR_COLOR_TEMP kw = Some mired \<longrightarrow>
         FluxLight_async_turn_on L self d rnd kw =
           after_turn_on d
             (if color_mode d = COLOR_MODE_RGBWW
              then (case color_temp_to_white_levels L
                           (color_temperature_mired_to_kelvin L mired)
                           (requested_white_brightness kw d) of
                      Inr (cold, warm) \<Rightarrow>
                        ([async_set_levels (Some 0) (Some 0) (Some 0) (Some warm) (Some cold)
                            None], Inr ())
                    | Inl e \<Rightarrow> ([], Inl e))
              else ([async_set_white_temp (color_temperature_mired_to_kelvin L mired)
                       (requested_brightness kw d)], Inr ())))
   \<and> (\<forall>r g b. ATTR_COLOR_TEMP kw = None \<and> ATTR_RGB_COLOR kw = Some (r, g, b) \<longrightarrow>
         FluxLight_async_turn_on L self d rnd kw =
           after_turn_on d
             ([async_set_levels (Some r) (Some g) (Some b) None None
                 (Some (requested_brightness kw d))],
              Inr ()))
   \<and> (\<forall>c. ATTR_COLOR_TEMP kw = None \<and> ATTR_RGB_COLOR kw = None
           \<and> ATTR_RGBW_COLOR kw = Some c \<longrightarrow>
         FluxLight_async_turn_on L self d rnd kw =
           after_turn_on d
             (case (case ATTR_BRIGHTNESS kw of
                      None \<Rightarrow> c
                    | Some v \<Rightarrow> rgbw_brightness L c v) of
                (r, g, b, w) \<Rightarrow>
                  ([async_set_levels (Some r) (Some g) (Some b) (Some w) None None], Inr ())))
   \<and> (\<forall>c. ATTR_COLOR_TEMP kw = None \<and> ATTR_RGB_COLOR kw = None
           \<and> ATTR_RGBW_COLOR kw = None \<and> ATTR_RGBWW_COLOR kw = Some c \<longrightarrow>
         FluxLight_async_turn_on L self d rnd kw =
           after_turn_on d
             (case rgbcw_to_rgbwc L
                     (case ATTR_BRIGHTNESS kw of
                        None \<Rightarrow> c
                      | Some v \<Rightarrow> rgbcw_brightness L c v) of
                (r, g, b, w, w2) \<Rightarrow>
                  ([async_set_levels (Some r) (Some g) (Some b) (Some w) (Some w2) None],
                   Inr ())))
   \<and> (\<forall>eff. ATTR_COLOR_TEMP kw = None \<and> ATTR_RGB_COLOR kw = None
           \<and> ATTR_RGBW_COLOR kw = None \<and> ATTR_RGBWW_COLOR kw = None
           \<and> ATTR_EFFECT kw = Some eff \<longrightarrow>
         FluxLight_async_turn_on L self d rnd kw =
           after_turn_on d
             (if eff = EFFECT_RANDOM
              then (case rnd of (r0, g0, b0) \<Rightarrow>
                      ([async_set_levels (Some r0) (Some g0) (Some b0) None None None],
                       Inr ()))
              else if eff = EFFECT_CUSTOM
              then (if custom_effect_colors self = [] then ([], Inr ())
                    else ([async_set_custom_pattern (custom_effect_colors self)
                             (custom_effect_speed_pct self) (custom_effect_transition self)],
                          Inr ()))
              else (case map_of EFFECT_MAP eff of
                      Some code \<Rightarrow>
                        ([async_set_preset_pattern code (DEFAULT_EFFECT_SPEED L)], Inr ())
                    | None \<Rightarrow> ([], Inl (ValueError_Unknown_effect eff)))))
   \<and> (no_color_or_effect kw \<and> (is_on d \<or> \<not> not_kwargs kw) \<longrightarrow>
         FluxLight_async_turn_on L self d rnd kw =
           after_turn_on d
             (case color_mode d of
                COLOR_MODE_COLOR_TEMP \<Rightarrow>
                  ([async_set_white_temp (device_color_temp d) (requested_brightness kw d)],
                   Inr ())
              | COLOR_MODE_RGB \<Rightarrow>
                  (case rgb_color L d of (r, g, b) \<Rightarrow>
                     ([async_set_levels (Some r) (Some g) (Some b) None None
                         (Some (requested_brightness kw d))], Inr ()))
              | COLOR_MODE_RGBW \<Rightarrow>
                  (case rgbw_brightness L (rgbw_color d) (requested_brightness kw d) of
                     (r, g, b, w) \<Rightarrow>
                       ([async_set_levels (Some r) (Some g) (Some b) (Some w) None None],
                        Inr ()))
              | COLOR_MODE_RGBWW \<Rightarrow>
                  (case rgbww_brightness L (rgbwc_color d) (requested_brightness kw d) of
                     (r, g, b, w, w2) \<Rightarrow>
                       ([async_set_levels (Some r) (Some g) (Some b) (Some w) (Some w2) None],
                        Inr ()))
              | COLOR_MODE_BRIGHTNESS \<Rightarrow>
                  ([async_set_levels None None None (Some (requested_brightness kw d)) None
                      None], Inr ())
              | COLOR_MODE_ONOFF \<Rightarrow>
                  ([], Inl (ValueError_Unsupported_color_mode COLOR_MODE_ONOFF))))"
  (is "?shape \<and> ?ct \<and> ?rgb \<and> ?rgbw \<and> ?rgbww \<and> ?eff \<and> ?bri")
proof -
  have call: "FluxLight_async_turn_on L self d rnd kw =
      after_turn_on d (turn_on_dispatch L self d rnd kw)" if "\<not> not_kwargs kw \<or> is_on d"
    using that by (auto simp: turn_on_call)
  have shape: ?shape
  proof (cases "is_on d \<or> \<not> not_kwargs kw")
    case True
    then have "FluxLight_async_turn_on L self d rnd kw =
        after_turn_on d (fst (turn_on_dispatch L self d rnd kw),
          snd (turn_on_dispatch L self d rnd kw))"
      by (simp add: turn_on_call)
    with dispatch_at_most_one [of L self d rnd kw] show ?thesis
      by blast
  next
    case False
    then have "FluxLight_async_turn_on L self d rnd kw = after_turn_on d ([], Inr ())"
      by (simp add: turn_on_call_empty)
    then show ?thesis
      by force
  qed
  have ct: ?ct
  proof (intro allI impI)
    fix mired
    assume a: "ATTR_COLOR_TEMP kw = Some mired"
    then have "\<not> not_kwargs kw"
      by (simp add: not_kwargs_def)
    with a show "FluxLight_async_turn_on L self d rnd kw =
           after_turn_on d
             (if color_mode d = COLOR_MODE_RGBWW
              then (case color_temp_to_white_levels L
                           (color_temperature_mired_to_kelvin L mired)
                           (requested_white_brightness kw d) of
                      Inr (cold, warm) \<Rightarrow>
                        ([async_set_levels (Some 0) (Some 0) (Some 0) (Some warm) (Some cold)
                            None], Inr ())
                    | Inl e \<Rightarrow> ([], Inl e))
              else ([async_set_white_temp (color_temperature_mired_to_kelvin L mired)
                       (requested_brightness kw d)], Inr ()))"
      by (cases "color_mode d = COLOR_MODE_RGBWW")
         (simp_all add: call dispatch_color_temp_rgbww dispatch_color_temp_native)
  qed
  have rgb: ?rgb
    by (auto simp: call dispatch_rgb not_kwargs_def)
  have rgbw: ?rgbw
    by (auto simp: call dispatch_rgbw not_kwargs_def)
  have rgbww: ?rgbww
    by (auto simp: call dispatch_rgbww not_kwargs_def)
  have eff: ?eff
  proof (intro allI impI)
    fix eff
    assume a: "ATTR_COLOR_TEMP kw = None \<and> ATTR_RGB_COLOR kw = None
           \<and> ATTR_RGBW_COLOR kw = None \<and> ATTR_RGBWW_COLOR kw = None
           \<and> ATTR_EFFECT kw = Some eff"
    then have "\<not> not_kwargs kw"
      by (simp add: not_kwargs_def)
    then have "FluxLight_async_turn_on L self d rnd kw =
        after_turn_on d (turn_on_dispatch L self d rnd kw)"
      by (simp add: call)
    with a show "FluxLight_async_turn_on L self d rnd kw =
           after_turn_on d
             (if eff = EFFECT_RANDOM
              then (case rnd of (r0, g0, b0) \<Rightarrow>
                      ([async_set_levels (Some r0) (Some g0) (Some b0) None None None],
                       Inr ()))
              else if eff = EFFECT_CUSTOM
              then (if custom_effect_colors self = [] then ([], Inr ())
                    else ([async_set_custom_pattern (custom_effect_colors self)
                             (custom_effect_speed_pct self) (custom_effect_transition self)],
                          Inr ()))
              else (case map_of EFFECT_MAP eff of
                      Some code \<Rightarrow>
                        ([async_set_preset_pattern code (DEFAULT_EFFECT_SPEED L)], Inr ())
                    | None \<Rightarrow> ([], Inl (ValueError_Unknown_effect eff))))"
      by (simp only: dispatch_effect)
  qed
  have bri: ?bri
  proof (intro impI)
    assume a: "no_color_or_effect kw \<and> (is_on d \<or> \<not> not_kwargs kw)"
    then have "FluxLight_async_turn_on L self d rnd kw =
        after_turn_on d (turn_on_dispatch L self d rnd kw)"
      by (auto simp: call)
    with a show "FluxLight_async_turn_on L self d rnd kw =
           after_turn_on d
             (case color_mode d of
                COLOR_MODE_COLOR_TEMP \<Rightarrow>
                  ([async_set_white_temp (device_color_temp d) (requested_brightness kw d)],
                   Inr ())
              | COLOR_MODE_RGB \<Rightarrow>
                  (case rgb_color L d of (r, g, b) \<Rightarrow>
                     ([async_set_levels (Some r) (Some g) (Some b) None None
                         (Some (requested_brightness kw d))], Inr ()))
              | COLOR_MODE_RGBW \<Rightarrow>
                  (case rgbw_brightness L (rgbw_color d) (requested_brightness kw d) of
                     (r, g, b, w) \<Rightarrow>
                       ([async_set_levels (Some r) (Some g) (Some b) (Some w) None None],
                        Inr ()))
              | COLOR_MODE_RGBWW \<Rightarrow>
                  (case rgbww_brightness L (rgbwc_color d) (requested_brightness kw d) of
                     (r, g, b, w, w2) \<Rightarrow>
                       ([async_set_levels (Some r) (Some g) (Some b) (Some w) (Some w2) None],
                        Inr ()))
              | COLOR_MODE_BRIGHTNESS \<Rightarrow>
                  ([async_set_levels None None None (Some (requested_brightness kw d)) None
                      None], Inr ())
              | COLOR_MODE_ONOFF \<Rightarrow>
                  ([], Inl (ValueError_Unsupported_color_mode COLOR_MODE_ONOFF)))"
      by (simp only: dispatch_brightness_only)
  qed
  from shape ct rgb rgbw rgbww eff bri show ?thesis
    by (intro conjI)
qed

text \<open>
  Intents with two or three attributes on the example device: in each, the attribute
  of the earliest rule decides, and the last line is the brightness-only rule.
\<close>

theorem dispatch_priority_witness:
  "FluxLight_async_turn_on example_library example_light example_device (7, 8, 9)
      (no_kwargs\<lparr>ATTR_COLOR_TEMP := Some 250, ATTR_RGB_COLOR := Some (255, 0, 0)\<rparr>) =
     ([async_set_levels (Some 0) (Some 0) (Some 0) (Some 65) (Some 35) None], Inr ())
   \<and> FluxLight_async_turn_on example_library example_light example_device (7, 8, 9)
      (no_kwargs\<lparr>ATTR_RGB_COLOR := Some (255, 0, 0), ATTR_RGBW_COLOR := Some (1, 2, 3, 4),
         ATTR_EFFECT := Some ''colorjump''\<rparr>) =
     ([async_set_levels (Some 255) (Some 0) (Some 0) None None (Some 200)], Inr ())
   \<and> FluxLight_async_turn_on example_library example_light example_device (7, 8, 9)
      (no_kwargs\<lparr>ATTR_RGBW_COLOR := Some (1, 2, 3, 4),
         ATTR_RGBWW_COLOR := Some (5, 6, 7, 8, 9)\<rparr>) =
     ([async_set_levels (Some 1) (Some 2) (Some 3) (Some 4) None None], Inr ())
   \<and> FluxLight_async_turn_on example_library example_light example_device (7, 8, 9)
      (no_kwargs\<lparr>ATTR_RGBWW_COLOR := Some (5, 6, 7, 8, 9), ATTR_EFFECT := Some ''colorjump''\<rparr>) =
     ([async_set_levels (Some 5) (Some 6) (Some 7) (Some 9) (Some 8) None], Inr ())
   \<and> FluxLight_async_turn_on example_library example_light example_device (7, 8, 9)
      (no_kwargs\<lparr>ATTR_EFFECT := Some ''colorjump'', ATTR_BRIGHTNESS := Some 128\<rparr>) =
     ([async_set_preset_pattern 0x38 50], Inr ())
   \<and> FluxLight_async_turn_on example_library example_light example_device (7, 8, 9)
      (no_kwargs\<lparr>ATTR_BRIGHTNESS := Some 255\<rparr>) =
     ([async_set_levels (Some 255) (Some 128) (Some 0) (Some 40) (Some 60) None], Inr ())"
  using
    dispatch_priority [of example_library example_light example_device "(7, 8, 9)"
      "no_kwargs\<lparr>ATTR_COLOR_TEMP := Some 250, ATTR_RGB_COLOR := Some (255, 0, 0)\<rparr>"]
    dispatch_priority [of example_library example_light example_device "(7, 8, 9)"
      "no_kwargs\<lparr>ATTR_RGB_COLOR := Some (255, 0, 0), ATTR_RGBW_COLOR := Some (1, 2, 3, 4),
         ATTR_EFFECT := Some ''colorjump''\<rparr>"]
    dispatch_priority [of example_library example_light example_device "(7, 8, 9)"
      "no_kwargs\<lparr>ATTR_RGBW_COLOR := Some (1, 2, 3, 4),
         ATTR_RGBWW_COLOR := Some (5, 6, 7, 8, 9)\<rparr>"]
    dispatch_priority [of example_library example_light example_device "(7, 8, 9)"
      "no_kwargs\<lparr>ATTR_RGBWW_COLOR := Some (5, 6, 7, 8, 9), ATTR_EFFECT := Some ''colorjump''\<rparr>"]
    dispatch_priority [of example_library example_light example_device "(7, 8, 9)"
      "no_kwargs\<lparr>ATTR_EFFECT := Some ''colorjump'', ATTR_BRIGHTNESS := Some 128\<rparr>"]
    dispatch_priority [of example_library example_light example_device "(7, 8, 9)"
      "no_kwargs\<lparr>ATTR_BRIGHTNESS := Some 255\<rparr>"]
  by (simp add: example_defs effect_name_lookups)

text \<open>
  The claim as it was stated allows one native command per intent. An rgb intent on a
  device that is off issues two: the turn-on and the levels.
\<close>

theorem dispatch_priority_counterexample:
  "FluxLight_async_turn_on example_library example_light (example_device\<lparr>is_on := False\<rparr>)
      (7, 8, 9) (no_kwargs\<lparr>ATTR_RGB_COLOR := Some (255, 0, 0)\<rparr>) =
     ([async_turn_on, async_set_levels (Some 255) (Some 0) (Some 0) None None (Some 200)],
      Inr ())
   \<and> \<not> length (fst (FluxLight_async_turn_on example_library example_light
          (example_device\<lparr>is_on := False\<rparr>) (7, 8, 9)
          (no_kwargs\<lparr>ATTR_RGB_COLOR := Some (255, 0, 0)\<rparr>))) \<le> 1"
  by (simp add: FluxLight_async_turn_on_def turn_on_dispatch_def example_defs)

subsection \<open>Intents without a brightness\<close>

text \<open>
  Claim C9. When the intent has no brightness attribute, every branch that needs a
  brightness takes the one the device reports: the colour-temperature rule outside
  RGBWW mode, the rgb rule, and the brightness-only rule in each colour mode (which is
  reached when the device is on or the intent holds some other key).
\<close>

theorem omitted_brightness:
  assumes "ATTR_BRIGHTNESS kw = None"
  shows
    "(\<forall>mired. ATTR_COLOR_TEMP kw = Some mired \<and> color_mode d \<noteq> COLOR_MODE_RGBWW \<longrightarrow>
        FluxLight_async_turn_on L self d rnd kw =
          after_turn_on d
            ([async_set_white_temp (color_temperature_mired_to_kelvin L mired)
                (device_brightness d)], Inr ()))
     \<and> (\<forall>r g b. ATTR_COLOR_TEMP kw = None \<and> ATTR_RGB_COLOR kw = Some (r, g, b) \<longrightarrow>
        FluxLight_async_turn_on L self d rnd kw =
          after_turn_on d
            ([async_set_levels (Some r) (Some g) (Some b) None None
                (Some (device_brightness d))], Inr ()))
     \<and> (no_color_or_effect kw \<and> (is_on d \<or> other_keys kw \<noteq> []) \<longrightarrow>
        FluxLight_async_turn_on L self d rnd kw =
          after_turn_on d
            (case color_mode d of
               COLOR_MODE_COLOR_TEMP \<Rightarrow>
                 ([async_set_white_temp (device_color_temp d) (device_brightness d)], Inr ())
             | COLOR_MODE_RGB \<Rightarrow>
                 (case rgb_color L d of (r, g, b) \<Rightarrow>
                    ([async_set_levels (Some r) (Some g) (Some b) None None
                        (Some (device_brightness d))], Inr ()))
             | COLOR_MODE_RGBW \<Rightarrow>
                 (case rgbw_brightness L (rgbw_color d) (device_brightness d) of
                    (r, g, b, w) \<Rightarrow>
                      ([async_set_levels (Some r) (Some g) (Some b) (Some w) None None],
                       Inr ()))
             | COLOR_MODE_RGBWW \<Rightarrow>
                 (case rgbww_brightness L (rgbwc_color d) (device_brightness d) of
                    (r, g, b, w, w2) \<Rightarrow>
                      ([async_set_levels (Some r) (Some g) (Some b) (Some w) (Some w2) None],
                       Inr ()))
             | COLOR_MODE_BRIGHTNESS \<Rightarrow>
                 ([async_set_levels None None None (Some (device_brightness d)) None None],
                  Inr ())
             | COLOR_MODE_ONOFF \<Rightarrow>
                 ([], Inl (ValueError_Unsupported_color_mode COLOR_MODE_ONOFF))))"
  (is "?ct \<and> ?rgb \<and> ?bri")
proof -
  from assms have rb: "requested_brightness kw d = device_brightness d"
    by (simp add: requested_brightness_def brightness_def)
  have ct: ?ct
    by (auto simp: turn_on_call dispatch_color_temp_native not_kwargs_def rb)
  have rgb: ?rgb
    by (auto simp: turn_on_call dispatch_rgb not_kwargs_def rb)
  have bri: ?bri
  proof (intro impI)
    assume a: "no_color_or_effect kw \<and> (is_on d \<or> other_keys kw \<noteq> [])"
    then have "is_on d \<or> \<not> not_kwargs kw"
      by (auto simp: not_kwargs_def)
    then have "FluxLight_async_turn_on L self d rnd kw =
        after_turn_on d (turn_on_dispatch L self d rnd kw)"
      by (rule turn_on_call)
    with a show "FluxLight_async_turn_on L self d rnd kw =
          after_turn_on d
            (case color_mode d of
               COLOR_MODE_COLOR_TEMP \<Rightarrow>
                 ([async_set_white_temp (device_color_temp d) (device_brightness d)], Inr ())
             | COLOR_MODE_RGB \<Rightarrow>
                 (case rgb_color L d of (r, g, b) \<Rightarrow>
                    ([async_set_levels (Some r) (Some g) (Some b) None None
                        (Some (device_brightness d))], Inr ()))
             | COLOR_MODE_RGBW \<Rightarrow>
                 (case rgbw_brightness L (rgbw_color d) (device_brightness d) of
                    (r, g, b, w) \<Rightarrow>
                      ([async_set_levels (Some r) (Some g) (Some b) (Some w) None None],
                       Inr ()))
             | COLOR_MODE_RGBWW \<Rightarrow>
                 (case rgbww_brightness L (rgbwc_color d) (device_brightness d) of
                    (r, g, b, w, w2) \<Rightarrow>
                      ([async_set_levels (Some r) (Some g) (Some b) (Some w) (Some w2) None],
                       Inr ()))
             | COLOR_MODE_BRIGHTNESS \<Rightarrow>
                 ([async_set_levels None None None (Some (device_brightness d)) None None],
                  Inr ())
             | COLOR_MODE_ONOFF \<Rightarrow>
                 ([], Inl (ValueError_Unsupported_color_mode COLOR_MODE_ONOFF)))"
      by (simp only: dispatch_brightness_only rb)
  qed
  from ct rgb bri show ?thesis
    by (intro conjI)
qed

text \<open>
  The example device reports brightness 200: a colour temperature in RGB mode, an rgb
  colour, and a bare transition on a dimmer that is off.
\<close>

theorem omitted_brightness_witness:
  "ATTR_BRIGHTNESS (no_kwargs\<lparr>ATTR_COLOR_TEMP := Some 250\<rparr>) = None
   \<and> device_brightness example_device = 200
   \<and> FluxLight_async_turn_on example_library example_light
        (example_device\<lparr>device_color_mode := FLUX_COLOR_MODE_RGB\<rparr>) (7, 8, 9)
        (no_kwargs\<lparr>ATTR_COLOR_TEMP := Some 250\<rparr>) =
      ([async_set_white_temp 4000 200], Inr ())
   \<and> FluxLight_async_turn_on example_library example_light example_device (7, 8, 9)
        (no_kwargs\<lparr>ATTR_RGB_COLOR := Some (0, 0, 255)\<rparr>) =
      ([async_set_levels (Some 0) (Some 0) (Some 255) None None (Some 200)], Inr ())
   \<and> FluxLight_async_turn_on example_library example_light
        (example_device\<lparr>device_color_mode := FLUX_COLOR_MODE_DIM, is_on := False\<rparr>) (7, 8, 9)
        (no_kwargs\<lparr>other_keys := [''transition'']\<rparr>) =
      ([async_turn_on, async_set_levels None None None (Some 200) None None], Inr ())"
  using
    omitted_brightness [of "no_kwargs\<lparr>ATTR_COLOR_TEMP := Some 250\<rparr>"
      "example_device\<lparr>device_color_mode := FLUX_COLOR_MODE_RGB\<rparr>" example_library
      example_light "(7, 8, 9)"]
    omitted_brightness [of "no_kwargs\<lparr>ATTR_RGB_COLOR := Some (0, 0, 255)\<rparr>"
      example_device example_library example_light "(7, 8, 9)"]
    omitted_brightness [of "no_kwargs\<lparr>other_keys := [''transition'']\<rparr>"
      "example_device\<lparr>device_color_mode := FLUX_COLOR_MODE_DIM, is_on := False\<rparr>"
      example_library example_light "(7, 8, 9)"]
  by (simp add: example_defs)

subsection \<open>The reported rgb colour\<close>





















end
